theory Spec2Isabelle
  imports Main
begin

section \<open>Rows, strings and dictionary access\<close>

text \<open>
  A row of a collection is a Python dictionary from column names to string values.  The
  program never observes the insertion order of a row (it only reads single keys, copies the
  whole dictionary and takes the key set of the first merged row), so a row is a finite map.
  The column names of a file (\<open>reader.fieldnames\<close>) are a separate list, in header order.
  A cell is a string, as in the specification's data model (the \<open>None\<close> that
  \<open>csv.DictReader\<close> stores in the missing cells of a line shorter than the header behaves as
  the empty string in every test the script makes).  For a line longer than the header the
  reader adds one more key, Python's \<open>None\<close>, holding the surplus cells.  The script never
  reads that key; it only travels with the row through \<open>dict(row)\<close> and shows in the row's key
  set.  A row here may therefore have keys outside the header, and the surplus key is
  represented by the name \<open>restkey\<close>, which is no column of any list of the script.
\<close>

type_synonym row = "string \<rightharpoonup> string"

datatype error = KeyError string

definition restkey :: string where
  "restkey = ''<None>''"

text \<open>\<open>row.get(k, d)\<close>: the default \<open>d\<close> when the key is absent.\<close>

definition get :: "row \<Rightarrow> string \<Rightarrow> string \<Rightarrow> string" where
  "get r k d = (case r k of None \<Rightarrow> d | Some v \<Rightarrow> v)"

text \<open>\<open>row[k]\<close>: raises \<open>KeyError\<close> when the key is absent.\<close>

definition subscript :: "row \<Rightarrow> string \<Rightarrow> error + string" where
  "subscript r k = (case r k of None \<Rightarrow> Inl (KeyError k) | Some v \<Rightarrow> Inr v)"

text \<open>
  \<open>str.strip()\<close> removes leading and trailing whitespace.  Characters are the 256 code
  points of HOL's \<open>char\<close>; among these Python counts as whitespace the code points
  9 to 13, 28 to 32, 133 and 160.
\<close>

definition isspace :: "char \<Rightarrow> bool" where
  "isspace c = (c \<in> set [CHR 0x09, CHR 0x0A, CHR 0x0B, CHR 0x0C, CHR 0x0D,
                          CHR 0x1C, CHR 0x1D, CHR 0x1E, CHR 0x1F, CHR 0x20,
                          CHR 0x85, CHR 0xA0])"

definition strip :: "string \<Rightarrow> string" where
  "strip s = rev (dropWhile isspace (rev (dropWhile isspace s)))"

text \<open>
  \<open>str.upper()\<close> on the 256 code points of \<open>char\<close>, read as Latin-1.  The letters a to z
  and the 30 accented small letters 224 to 254 (247, the division sign, is no letter) go to
  the capital 32 places below; the sharp s (223) becomes the two letters SS; every other
  code point is kept, with two exceptions that \<open>char\<close> cannot express: Python sends the
  micro sign (181) to code point 924 and y with diaeresis (255) to code point 376.  No
  Latin-1 character is sent to 181, 255, 924 or 376 by anything else, and the script only
  compares uppercased strings with each other and with the empty string, so these two images
  are represented by 181 and 255 themselves: two uppercased Latin-1 strings are equal here
  exactly when they are equal in Python.
\<close>

definition lower_letters :: string where
  "lower_letters =
     ''abcdefghijklmnopqrstuvwxyz'' @
       [CHR 0xE0, CHR 0xE1, CHR 0xE2, CHR 0xE3, CHR 0xE4, CHR 0xE5, CHR 0xE6, CHR 0xE7, CHR 0xE8, CHR 0xE9,
        CHR 0xEA, CHR 0xEB, CHR 0xEC, CHR 0xED, CHR 0xEE, CHR 0xEF, CHR 0xF0, CHR 0xF1, CHR 0xF2, CHR 0xF3,
        CHR 0xF4, CHR 0xF5, CHR 0xF6, CHR 0xF8, CHR 0xF9, CHR 0xFA, CHR 0xFB, CHR 0xFC, CHR 0xFD, CHR 0xFE]"

definition upper_letters :: string where
  "upper_letters =
     ''ABCDEFGHIJKLMNOPQRSTUVWXYZ'' @
       [CHR 0xC0, CHR 0xC1, CHR 0xC2, CHR 0xC3, CHR 0xC4, CHR 0xC5, CHR 0xC6, CHR 0xC7, CHR 0xC8, CHR 0xC9,
        CHR 0xCA, CHR 0xCB, CHR 0xCC, CHR 0xCD, CHR 0xCE, CHR 0xCF, CHR 0xD0, CHR 0xD1, CHR 0xD2, CHR 0xD3,
        CHR 0xD4, CHR 0xD5, CHR 0xD6, CHR 0xD8, CHR 0xD9, CHR 0xDA, CHR 0xDB, CHR 0xDC, CHR 0xDD, CHR 0xDE]"

definition upper_char :: "char \<Rightarrow> string" where
  "upper_char c =
     (if c = CHR 0xDF then ''SS''
      else case map_of (zip lower_letters upper_letters) c of
             None \<Rightarrow> [c]
           | Some u \<Rightarrow> [u])"

definition upper :: "string \<Rightarrow> string" where
  "upper s = concat (map upper_char s)"

text \<open>
  \<open>clean(val)\<close>: the empty string for \<open>None\<close>, the stripped string otherwise.  Values of a
  row are strings here, so every call site passes \<open>Some\<close> of what \<open>row.get(k, "")\<close> returned.
\<close>

definition clean :: "string option \<Rightarrow> string" where
  "clean val = (case val of None \<Rightarrow> '''' | Some s \<Rightarrow> strip s)"

text \<open>Truth value of \<open>d.get(key)\<close>: \<open>None\<close> and the empty dictionary are false.\<close>

definition truthy_row :: "row option \<Rightarrow> bool" where
  "truthy_row x = (case x of None \<Rightarrow> False | Some r \<Rightarrow> r \<noteq> Map.empty)"

section \<open>Standardising the join keys\<close>

definition normalise_sirca :: "row \<Rightarrow> row" where
  "normalise_sirca row =
     (let row = row(''MS_CompanyID'' \<mapsto> clean (Some (get row ''MS_CompanyID'' '''')));
          row = row(''MS_SecurityID'' \<mapsto> clean (Some (get row ''MS_SecurityID'' '''')))
      in row)"

definition normalise_secref :: "row \<Rightarrow> row" where
  "normalise_secref row =
     (let row = row(''CompanyId'' \<mapsto> clean (Some (get row ''CompanyId'' '''')));
          row = row(''ShareClassId'' \<mapsto> clean (Some (get row ''ShareClassId'' '''')));
          row = row(''ISIN'' \<mapsto> clean (Some (get row ''ISIN'' '''')))
      in row)"

definition normalise_master :: "row \<Rightarrow> row" where
  "normalise_master row =
     (let row = row(''ISIN'' \<mapsto> clean (Some (get row ''ISIN'' '''')));
          row = row(''Symbol'' \<mapsto> clean (Some (get row ''Symbol'' '''')))
      in row)"

section \<open>Step 1: the composite-key join\<close>

definition sr_cols_keep0 :: "string list" where
  "sr_cols_keep0 =
     [''CompanyId'', ''ShareClassId'',
      ''ISIN'', ''CUSIP'', ''Valoren'',
      ''ExchangeId'', ''CurrencyId'', ''MIC'',
      ''IPODate'', ''IPOOfferPrice'', ''IPOOfferPriceRange'',
      ''IsDepositaryReceipt'', ''DepositaryReceiptRatio'',
      ''SecurityType'',
      ''ShareClassDescription'', ''ShareClassStatus'',
      ''IsPrimaryShare'', ''IsDividendReinvest'', ''IsDirectInvest'',
      ''InvestmentId'',
      ''CommonShareSubType'', ''ExchangeSubMarketGlobalId'',
      ''ConversionRatio'', ''ActiveOrDelisted'']"

definition sr_cols_keep :: "string list \<Rightarrow> string list" where
  "sr_cols_keep secref_cols = filter (\<lambda>c. c \<in> set secref_cols) sr_cols_keep0"

text \<open>
  The two inner loops of every join stage: on a match each kept column of the matched row is
  stored under the prefixed name, otherwise the prefixed name gets the empty string.
\<close>

definition copy_cols :: "string \<Rightarrow> row \<Rightarrow> string list \<Rightarrow> row \<Rightarrow> row" where
  "copy_cols pre src cols dst = fold (\<lambda>col d. d(pre @ col \<mapsto> get src col '''')) cols dst"

definition blank_cols :: "string \<Rightarrow> string list \<Rightarrow> row \<Rightarrow> row" where
  "blank_cols pre cols dst = fold (\<lambda>col d. d(pre @ col \<mapsto> '''')) cols dst"

type_synonym sr_index = "(string \<times> string) \<rightharpoonup> row"
type_synonym mc_index = "string \<rightharpoonup> row"

fun build_sr_lookup :: "row list \<Rightarrow> sr_index \<Rightarrow> error + sr_index" where
  "build_sr_lookup [] sr_lookup = Inr sr_lookup"
| "build_sr_lookup (row # rest) sr_lookup =
     (case subscript row ''CompanyId'' of
        Inl e \<Rightarrow> Inl e
      | Inr a \<Rightarrow>
          (case subscript row ''ShareClassId'' of
             Inl e \<Rightarrow> Inl e
           | Inr b \<Rightarrow>
               (let key = (a, b) in
                if key \<notin> dom sr_lookup \<and> key \<noteq> ('''', '''')
                then build_sr_lookup rest (sr_lookup(key \<mapsto> row))
                else build_sr_lookup rest sr_lookup)))"

text \<open>
  One pass of the step-1 loop body: the flag says whether the match branch was taken, the
  row is \<open>new_row\<close>.
\<close>

definition step1_row :: "sr_index \<Rightarrow> string list \<Rightarrow> row \<Rightarrow> error + (bool \<times> row)" where
  "step1_row sr_lookup keep row =
     (let new_row = row in
      case subscript row ''MS_CompanyID'' of
        Inl e \<Rightarrow> Inl e
      | Inr a \<Rightarrow>
          (case subscript row ''MS_SecurityID'' of
             Inl e \<Rightarrow> Inl e
           | Inr b \<Rightarrow>
               (let key = (a, b);
                    sr_row = (if key \<noteq> ('''', '''') then sr_lookup key else None)
                in case sr_row of
                     None \<Rightarrow> Inr (False, blank_cols ''SR_'' keep new_row)
                   | Some r \<Rightarrow>
                       if truthy_row sr_row
                       then Inr (True, copy_cols ''SR_'' r keep new_row)
                       else Inr (False, blank_cols ''SR_'' keep new_row))))"

fun step1 :: "sr_index \<Rightarrow> string list \<Rightarrow> row list \<Rightarrow> error + (nat \<times> row list)" where
  "step1 sr_lookup keep [] = Inr (0, [])"
| "step1 sr_lookup keep (row # rest) =
     (case step1_row sr_lookup keep row of
        Inl e \<Rightarrow> Inl e
      | Inr (hit, new_row) \<Rightarrow>
          (case step1 sr_lookup keep rest of
             Inl e \<Rightarrow> Inl e
           | Inr (n_step1, merged) \<Rightarrow>
               Inr ((if hit then 1 else 0) + n_step1, new_row # merged)))"

section \<open>Step 2: the join on ISIN\<close>

definition mc_cols_keep0 :: "string list" where
  "mc_cols_keep0 =
     [''ISIN'',
      ''Identifier'',
      ''ACN'', ''ABN'',
      ''HomeMarket'',
      ''GICSSector'', ''GICSIndGrp'',
      ''ASXSector'', ''ASXSubSector'',
      ''FormerNames'',
      ''TradingStatus'',
      ''ListDate'', ''DelistDate'', ''DelistReason'',
      ''Address'', ''City'', ''State'', ''Postcode'',
      ''PhoneNumber'', ''FaxNumber'',
      ''WebAddress'', ''EmailAddress'',
      ''RegistryId'', ''Template'', ''ASX300'']"

definition mc_cols_keep :: "string list \<Rightarrow> string list" where
  "mc_cols_keep master_cols = filter (\<lambda>c. c \<in> set master_cols) mc_cols_keep0"

fun build_mc_isin_lookup :: "row list \<Rightarrow> mc_index \<Rightarrow> error + mc_index" where
  "build_mc_isin_lookup [] mc_isin_lookup = Inr mc_isin_lookup"
| "build_mc_isin_lookup (row # rest) mc_isin_lookup =
     (case subscript row ''ISIN'' of
        Inl e \<Rightarrow> Inl e
      | Inr isin \<Rightarrow>
          if isin \<noteq> '''' \<and> isin \<notin> dom mc_isin_lookup
          then build_mc_isin_lookup rest (mc_isin_lookup(isin \<mapsto> row))
          else build_mc_isin_lookup rest mc_isin_lookup)"

definition step2_row :: "mc_index \<Rightarrow> string list \<Rightarrow> row \<Rightarrow> bool \<times> row" where
  "step2_row mc_isin_lookup keep mrow =
     (let sr_isin = get mrow ''SR_ISIN'' '''';
          mc_row = (if sr_isin \<noteq> '''' then mc_isin_lookup sr_isin else None)
      in case mc_row of
           None \<Rightarrow> (False, blank_cols ''MC_'' keep mrow)
         | Some r \<Rightarrow>
             if truthy_row mc_row
             then (True, copy_cols ''MC_'' r keep mrow)
             else (False, blank_cols ''MC_'' keep mrow))"

fun step2 :: "mc_index \<Rightarrow> string list \<Rightarrow> row list \<Rightarrow> nat \<times> row list" where
  "step2 mc_isin_lookup keep [] = (0, [])"
| "step2 mc_isin_lookup keep (mrow # rest) =
     (case step2_row mc_isin_lookup keep mrow of
        (hit, mrow') \<Rightarrow>
          (case step2 mc_isin_lookup keep rest of
             (n_step2, merged) \<Rightarrow> ((if hit then 1 else 0) + n_step2, mrow' # merged)))"

section \<open>Step 3: the fallback join on the ticker symbol\<close>

fun build_mc_symbol_lookup :: "row list \<Rightarrow> mc_index \<Rightarrow> error + mc_index" where
  "build_mc_symbol_lookup [] mc_symbol_lookup = Inr mc_symbol_lookup"
| "build_mc_symbol_lookup (row # rest) mc_symbol_lookup =
     (case subscript row ''Symbol'' of
        Inl e \<Rightarrow> Inl e
      | Inr s \<Rightarrow>
          (let sym = upper s in
           if sym \<noteq> '''' \<and> sym \<notin> dom mc_symbol_lookup
           then build_mc_symbol_lookup rest (mc_symbol_lookup(sym \<mapsto> row))
           else build_mc_symbol_lookup rest mc_symbol_lookup))"

text \<open>The guard of the step-3 loop: such a row is passed over (\<open>continue\<close>).\<close>

definition has_mc_data :: "row \<Rightarrow> bool" where
  "has_mc_data mrow =
     (get mrow ''MC_ABN'' '''' \<noteq> '''' \<or> get mrow ''MC_ACN'' '''' \<noteq> ''''
      \<or> get mrow ''MC_TradingStatus'' '''' \<noteq> '''')"

definition ticker_of :: "row \<Rightarrow> string" where
  "ticker_of mrow = upper (clean (Some (get mrow ''CompanyTicker'' '''')))"

definition symbol_probe :: "mc_index \<Rightarrow> row \<Rightarrow> row option" where
  "symbol_probe mc_symbol_lookup mrow =
     (let ticker = ticker_of mrow in
      if ticker \<noteq> '''' then mc_symbol_lookup ticker else None)"

definition step3_row :: "mc_index \<Rightarrow> string list \<Rightarrow> row \<Rightarrow> bool \<times> row" where
  "step3_row mc_symbol_lookup keep mrow =
     (if has_mc_data mrow then (False, mrow)
      else
        (let mc_row = symbol_probe mc_symbol_lookup mrow
         in case mc_row of
              None \<Rightarrow> (False, mrow)
            | Some r \<Rightarrow>
                if truthy_row mc_row
                then (True, copy_cols ''MC_'' r keep mrow)
                else (False, mrow)))"

fun step3 :: "mc_index \<Rightarrow> string list \<Rightarrow> row list \<Rightarrow> nat \<times> row list" where
  "step3 mc_symbol_lookup keep [] = (0, [])"
| "step3 mc_symbol_lookup keep (mrow # rest) =
     (case step3_row mc_symbol_lookup keep mrow of
        (hit, mrow') \<Rightarrow>
          (case step3 mc_symbol_lookup keep rest of
             (n_step3, merged) \<Rightarrow> ((if hit then 1 else 0) + n_step3, mrow' # merged)))"

section \<open>Output columns and the written table\<close>

definition output_cols0 :: "string list" where
  "output_cols0 =
     [''Gcode'',
      ''SR_CompanyId'', ''SR_ShareClassId'',
      ''SR_ISIN'', ''SR_CUSIP'', ''SR_Valoren'',
      ''CompanyTicker'', ''SecurityTicker'',
      ''MC_Identifier'',
      ''MA_Identifier'',
      ''FullCompanyName'', ''AbbrevCompanyName'',
      ''GICSIndustry'',
      ''SIRCAIndustryClassCode'', ''SIRCASectorCode'',
      ''EarliestListDate'', ''LatestDelistDate'',
      ''CompanyDelistReasonCode'', ''CompanyRelatedGCode'',
      ''CompanyDelistReasonComment'',
      ''SeniorSecurity'', ''SecurityType'',
      ''AbreviatedSecurityDescription'',
      ''ListDate_YMD'', ''DelistDate_YMD'',
      ''ListDate'', ''DelistDate'',
      ''RecordCount'',
      ''AlteredLink'',
      ''SR_ExchangeId'', ''SR_CurrencyId'', ''SR_MIC'',
      ''SR_SecurityType'',
      ''SR_ShareClassDescription'', ''SR_ShareClassStatus'',
      ''SR_IsPrimaryShare'',
      ''SR_IsDepositaryReceipt'', ''SR_DepositaryReceiptRatio'',
      ''SR_IPODate'', ''SR_IPOOfferPrice'', ''SR_IPOOfferPriceRange'',
      ''SR_IsDividendReinvest'', ''SR_IsDirectInvest'',
      ''SR_InvestmentId'',
      ''SR_CommonShareSubType'', ''SR_ExchangeSubMarketGlobalId'',
      ''SR_ConversionRatio'', ''SR_ActiveOrDelisted'',
      ''MC_ACN'', ''MC_ABN'',
      ''MC_HomeMarket'',
      ''MC_GICSSector'', ''MC_GICSIndGrp'',
      ''MC_ASXSector'', ''MC_ASXSubSector'',
      ''MC_FormerNames'',
      ''MC_TradingStatus'',
      ''MC_ListDate'', ''MC_DelistDate'', ''MC_DelistReason'',
      ''MC_Address'', ''MC_City'', ''MC_State'', ''MC_Postcode'',
      ''MC_PhoneNumber'', ''MC_FaxNumber'',
      ''MC_WebAddress'', ''MC_EmailAddress'',
      ''MC_RegistryId'', ''MC_Template'', ''MC_ASX300'',
      ''MS_CompanyID'', ''MS_SecurityID'',
      ''MS_CompanyID2'', ''MS_SecurityID2'']"

definition skip :: "string set" where
  "skip = {''join_key'', ''ListDate_DaysSince'', ''DelistDate_DaysSince''}"

definition available :: "row list \<Rightarrow> string set" where
  "available merged = (case merged of [] \<Rightarrow> {} | m # _ \<Rightarrow> dom m)"

definition select_output_cols :: "row list \<Rightarrow> string list \<Rightarrow> string list" where
  "select_output_cols merged sirca_cols =
     (let output_cols = filter (\<lambda>c. c \<in> available merged) output_cols0;
          all_output_set = set output_cols
      in fold (\<lambda>col out. if col \<notin> all_output_set \<and> col \<notin> skip then out @ [col] else out)
              sirca_cols output_cols)"

text \<open>
  \<open>csv.DictWriter(f, fieldnames=output_cols, extrasaction="ignore")\<close>: a row is written as
  its values at the field names, a missing one as the empty string; other keys are ignored.
\<close>

definition writerows :: "string list \<Rightarrow> row list \<Rightarrow> string list list" where
  "writerows fieldnames rows = map (\<lambda>r. map (\<lambda>c. get r c '''') fieldnames) rows"

section \<open>The whole script\<close>

text \<open>
  The script from the normalisation loops to the closing of the output file: the merged rows,
  the three match counters, the header and the written lines.  Reading the three files, the
  progress messages and the summary printed after the file is closed are left out.
\<close>

record result =
  merged :: "row list"
  n_step1 :: nat
  n_step2 :: nat
  n_step3 :: nat
  output_cols :: "string list"
  written :: "string list list"

definition generate ::
  "row list \<Rightarrow> string list \<Rightarrow> row list \<Rightarrow> string list \<Rightarrow> row list \<Rightarrow> string list
     \<Rightarrow> error + result" where
  "generate sirca sirca_cols secref secref_cols master master_cols =
     (let sirca = map normalise_sirca sirca;
          secref = map normalise_secref secref;
          master = map normalise_master master
      in case build_sr_lookup secref Map.empty of
           Inl e \<Rightarrow> Inl e
         | Inr sr_lookup \<Rightarrow>
             (case step1 sr_lookup (sr_cols_keep secref_cols) sirca of
                Inl e \<Rightarrow> Inl e
              | Inr (n1, merged1) \<Rightarrow>
                  (case build_mc_isin_lookup master Map.empty of
                     Inl e \<Rightarrow> Inl e
                   | Inr mc_isin_lookup \<Rightarrow>
                       (case step2 mc_isin_lookup (mc_cols_keep master_cols) merged1 of
                          (n2, merged2) \<Rightarrow>
                            (case build_mc_symbol_lookup master Map.empty of
                               Inl e \<Rightarrow> Inl e
                             | Inr mc_symbol_lookup \<Rightarrow>
                                 (case step3 mc_symbol_lookup (mc_cols_keep master_cols) merged2 of
                                    (n3, merged3) \<Rightarrow>
                                      (let cols = select_output_cols merged3 sirca_cols
                                       in Inr \<lparr> merged = merged3,
                                                 n_step1 = n1, n_step2 = n2, n_step3 = n3,
                                                 output_cols = cols,
                                                 written = writerows cols merged3 \<rparr>)))))))"

section \<open>What the indexes and the joins compute\<close>

text \<open>
  The intended content of the three indexes, in the words of the specification: a key is
  mapped to the first row, in input order, whose key equals it, and the empty key is never
  indexed.  The builders above are compared with these below.
\<close>

definition sr_key :: "row \<Rightarrow> string \<times> string" where
  "sr_key r = (get r ''CompanyId'' '''', get r ''ShareClassId'' '''')"

definition sr_index :: "row list \<Rightarrow> sr_index" where
  "sr_index rows key = (if key = ('''', '''') then None else List.find (\<lambda>r. sr_key r = key) rows)"

definition isin_index :: "row list \<Rightarrow> mc_index" where
  "isin_index rows isin = (if isin = '''' then None else List.find (\<lambda>r. get r ''ISIN'' '''' = isin) rows)"

definition symbol_index :: "row list \<Rightarrow> mc_index" where
  "symbol_index rows key =
     (if key = '''' then None else List.find (\<lambda>r. upper (get r ''Symbol'' '''') = key) rows)"

text \<open>
  Step 1 on a row that has both key fields (the subscripts cannot raise), and the merged list
  after each of the three loops, as maps over the primary rows.
\<close>

definition sr_probe :: "sr_index \<Rightarrow> row \<Rightarrow> row option" where
  "sr_probe sr_lookup row =
     (let key = (get row ''MS_CompanyID'' '''', get row ''MS_SecurityID'' '''') in
      if key \<noteq> ('''', '''') then sr_lookup key else None)"

definition join1 :: "sr_index \<Rightarrow> string list \<Rightarrow> row \<Rightarrow> bool \<times> row" where
  "join1 sr_lookup keep row =
     (case sr_probe sr_lookup row of
        None \<Rightarrow> (False, blank_cols ''SR_'' keep row)
      | Some r \<Rightarrow>
          if r \<noteq> Map.empty then (True, copy_cols ''SR_'' r keep row)
          else (False, blank_cols ''SR_'' keep row))"

definition merged1 :: "row list \<Rightarrow> row list \<Rightarrow> string list \<Rightarrow> row list" where
  "merged1 sirca secref secref_cols =
     map (\<lambda>row. snd (join1 (sr_index (map normalise_secref secref)) (sr_cols_keep secref_cols) row))
         (map normalise_sirca sirca)"

definition merged2 ::
  "row list \<Rightarrow> row list \<Rightarrow> string list \<Rightarrow> row list \<Rightarrow> string list \<Rightarrow> row list" where
  "merged2 sirca secref secref_cols master master_cols =
     map (\<lambda>mrow. snd (step2_row (isin_index (map normalise_master master))
                                 (mc_cols_keep master_cols) mrow))
         (merged1 sirca secref secref_cols)"

definition merged3 ::
  "row list \<Rightarrow> row list \<Rightarrow> string list \<Rightarrow> row list \<Rightarrow> string list \<Rightarrow> row list" where
  "merged3 sirca secref secref_cols master master_cols =
     map (\<lambda>mrow. snd (step3_row (symbol_index (map normalise_master master))
                                 (mc_cols_keep master_cols) mrow))
         (merged2 sirca secref secref_cols master master_cols)"

text \<open>The rows of the specification's fallback scenario.\<close>

definition scenario_primary :: row where
  "scenario_primary = [''MS_CompanyID'' \<mapsto> ''1'', ''MS_SecurityID'' \<mapsto> ''A'', ''CompanyTicker'' \<mapsto> ''xyz'']"

definition scenario_tertiary :: row where
  "scenario_tertiary = [''Symbol'' \<mapsto> ''XYZ'', ''ABN'' \<mapsto> ''123'']"

text \<open>
  An input on which a row matched on ISIN in step 2 is matched again in step 3: the rows of the
  three files, and the merged row after each stage.
\<close>

definition bug_primary :: row where
  "bug_primary = [''MS_CompanyID'' \<mapsto> ''1'', ''MS_SecurityID'' \<mapsto> ''A'', ''CompanyTicker'' \<mapsto> ''TCK'']"

definition bug_secondary :: row where
  "bug_secondary = [''CompanyId'' \<mapsto> ''1'', ''ShareClassId'' \<mapsto> ''A'', ''ISIN'' \<mapsto> ''AU01'']"

definition bug_tertiary :: "row list" where
  "bug_tertiary = [[''ISIN'' \<mapsto> ''AU01'', ''Symbol'' \<mapsto> ''OLD'', ''ABN'' \<mapsto> ''''],
                   [''ISIN'' \<mapsto> ''AU99'', ''Symbol'' \<mapsto> ''TCK'', ''ABN'' \<mapsto> ''999'']]"

definition bug_after_step1 :: row where
  "bug_after_step1 =
     bug_primary(''SR_CompanyId'' \<mapsto> ''1'', ''SR_ShareClassId'' \<mapsto> ''A'', ''SR_ISIN'' \<mapsto> ''AU01'')"

definition bug_after_step2 :: row where
  "bug_after_step2 = bug_after_step1(''MC_ISIN'' \<mapsto> ''AU01'', ''MC_ABN'' \<mapsto> '''')"

definition bug_after_step3 :: row where
  "bug_after_step3 = bug_after_step2(''MC_ISIN'' \<mapsto> ''AU99'', ''MC_ABN'' \<mapsto> ''999'')"

section \<open>Properties of the inner loops and of the index builders\<close>

lemma copy_cols_apply:
  "copy_cols pre src cols dst k =
     (if k \<in> (\<lambda>c. pre @ c) ` set cols then Some (get src (drop (length pre) k) '''') else dst k)"
  unfolding copy_cols_def
  by (induction cols arbitrary: dst) auto

lemma blank_cols_apply:
  "blank_cols pre cols dst k = (if k \<in> (\<lambda>c. pre @ c) ` set cols then Some '''' else dst k)"
  unfolding blank_cols_def
  by (induction cols arbitrary: dst) auto

lemma dom_copy_cols: "dom (copy_cols pre src cols dst) = dom dst \<union> (\<lambda>c. pre @ c) ` set cols"
  by (auto simp: dom_def copy_cols_apply)

lemma dom_blank_cols: "dom (blank_cols pre cols dst) = dom dst \<union> (\<lambda>c. pre @ c) ` set cols"
  by (auto simp: dom_def blank_cols_apply)

lemma build_sr_lookup_acc:
  assumes "\<forall>r \<in> set rows. r ''CompanyId'' \<noteq> None \<and> r ''ShareClassId'' \<noteq> None"
  shows "build_sr_lookup rows lk =
           Inr (\<lambda>key. case lk key of Some r \<Rightarrow> Some r | None \<Rightarrow> sr_index rows key)"
  using assms
proof (induction rows arbitrary: lk)
  case Nil
  show ?case by (auto simp: sr_index_def split: option.splits)
next
  case (Cons row rest)
  from Cons.prems obtain a b where ab: "row ''CompanyId'' = Some a" "row ''ShareClassId'' = Some b"
    by auto
  have key: "sr_key row = (a, b)" by (simp add: sr_key_def get_def ab)
  have rest: "\<forall>r \<in> set rest. r ''CompanyId'' \<noteq> None \<and> r ''ShareClassId'' \<noteq> None"
    using Cons.prems by simp
  show ?case
    by (auto simp: subscript_def ab Cons.IH[OF rest] sr_index_def key fun_eq_iff dom_def Let_def
             split: option.splits)
qed

lemma build_mc_isin_lookup_acc:
  assumes "\<forall>r \<in> set rows. r ''ISIN'' \<noteq> None"
  shows "build_mc_isin_lookup rows lk =
           Inr (\<lambda>key. case lk key of Some r \<Rightarrow> Some r | None \<Rightarrow> isin_index rows key)"
  using assms
proof (induction rows arbitrary: lk)
  case Nil
  show ?case by (auto simp: isin_index_def split: option.splits)
next
  case (Cons row rest)
  from Cons.prems obtain a where a: "row ''ISIN'' = Some a" by auto
  have key: "get row ''ISIN'' '''' = a" by (simp add: get_def a)
  have rest: "\<forall>r \<in> set rest. r ''ISIN'' \<noteq> None" using Cons.prems by simp
  show ?case
    by (auto simp: subscript_def a Cons.IH[OF rest] isin_index_def key fun_eq_iff dom_def Let_def
             split: option.splits)
qed

lemma build_mc_symbol_lookup_acc:
  assumes "\<forall>r \<in> set rows. r ''Symbol'' \<noteq> None"
  shows "build_mc_symbol_lookup rows lk =
           Inr (\<lambda>key. case lk key of Some r \<Rightarrow> Some r | None \<Rightarrow> symbol_index rows key)"
  using assms
proof (induction rows arbitrary: lk)
  case Nil
  show ?case by (auto simp: symbol_index_def split: option.splits)
next
  case (Cons row rest)
  from Cons.prems obtain a where a: "row ''Symbol'' = Some a" by auto
  have key: "get row ''Symbol'' '''' = a" by (simp add: get_def a)
  have rest: "\<forall>r \<in> set rest. r ''Symbol'' \<noteq> None" using Cons.prems by simp
  show ?case
    by (auto simp: subscript_def a Cons.IH[OF rest] symbol_index_def key fun_eq_iff dom_def Let_def
             split: option.splits)
qed

lemma normalise_sirca_keys:
  "normalise_sirca r ''MS_CompanyID'' = Some (strip (get r ''MS_CompanyID'' ''''))"
  "normalise_sirca r ''MS_SecurityID'' = Some (strip (get r ''MS_SecurityID'' ''''))"
  by (simp_all add: normalise_sirca_def Let_def clean_def get_def)

lemma normalise_sirca_other:
  "k \<noteq> ''MS_CompanyID'' \<Longrightarrow> k \<noteq> ''MS_SecurityID'' \<Longrightarrow> normalise_sirca r k = r k"
  by (simp add: normalise_sirca_def Let_def)

lemma dom_normalise_sirca:
  "dom (normalise_sirca r) = insert ''MS_CompanyID'' (insert ''MS_SecurityID'' (dom r))"
  by (auto simp: normalise_sirca_def Let_def)

lemma normalise_secref_keys:
  "normalise_secref r ''CompanyId'' = Some (strip (get r ''CompanyId'' ''''))"
  "normalise_secref r ''ShareClassId'' = Some (strip (get r ''ShareClassId'' ''''))"
  "normalise_secref r ''ISIN'' = Some (strip (get r ''ISIN'' ''''))"
  by (simp_all add: normalise_secref_def Let_def clean_def get_def)

lemma normalise_master_keys:
  "normalise_master r ''ISIN'' = Some (strip (get r ''ISIN'' ''''))"
  "normalise_master r ''Symbol'' = Some (strip (get r ''Symbol'' ''''))"
  by (simp_all add: normalise_master_def Let_def clean_def get_def)

lemma normalise_secref_nonempty: "normalise_secref r \<noteq> Map.empty"
  using normalise_secref_keys(1)[of r] by (metis option.distinct(1))

lemma normalise_master_nonempty: "normalise_master r \<noteq> Map.empty"
  using normalise_master_keys(1)[of r] by (metis option.distinct(1))

lemma step1_row_join1:
  assumes "row ''MS_CompanyID'' \<noteq> None" "row ''MS_SecurityID'' \<noteq> None"
  shows "step1_row sr_lookup keep row = Inr (join1 sr_lookup keep row)"
proof -
  from assms obtain a b where ab: "row ''MS_CompanyID'' = Some a" "row ''MS_SecurityID'' = Some b"
    by auto
  show ?thesis
    by (simp add: step1_row_def join1_def sr_probe_def subscript_def get_def ab Let_def
                  truthy_row_def split: option.splits)
qed

lemma step1_map:
  assumes "\<forall>r \<in> set rows. r ''MS_CompanyID'' \<noteq> None \<and> r ''MS_SecurityID'' \<noteq> None"
  shows "step1 sr_lookup keep rows =
           Inr (length (filter (\<lambda>r. fst (join1 sr_lookup keep r)) rows),
                map (\<lambda>r. snd (join1 sr_lookup keep r)) rows)"
  using assms
  by (induction rows) (auto simp: step1_row_join1 split: prod.splits)

lemma step2_map:
  "step2 lk keep rows =
     (length (filter (\<lambda>r. fst (step2_row lk keep r)) rows),
      map (\<lambda>r. snd (step2_row lk keep r)) rows)"
  by (induction rows) (auto split: prod.splits)

lemma step3_map:
  "step3 lk keep rows =
     (length (filter (\<lambda>r. fst (step3_row lk keep r)) rows),
      map (\<lambda>r. snd (step3_row lk keep r)) rows)"
  by (induction rows) (auto split: prod.splits)

lemma build_sr_lookup_normalised:
  "build_sr_lookup (map normalise_secref secref) Map.empty = Inr (sr_index (map normalise_secref secref))"
  by (subst build_sr_lookup_acc) (auto simp: normalise_secref_keys)

lemma build_mc_isin_lookup_normalised:
  "build_mc_isin_lookup (map normalise_master master) Map.empty
     = Inr (isin_index (map normalise_master master))"
  by (subst build_mc_isin_lookup_acc) (auto simp: normalise_master_keys)

lemma build_mc_symbol_lookup_normalised:
  "build_mc_symbol_lookup (map normalise_master master) Map.empty
     = Inr (symbol_index (map normalise_master master))"
  by (subst build_mc_symbol_lookup_acc) (auto simp: normalise_master_keys)

lemma generate_eq:
  "generate sirca sirca_cols secref secref_cols master master_cols =
     Inr \<lparr> merged = merged3 sirca secref secref_cols master master_cols,
           n_step1 = length (filter (\<lambda>r. fst (join1 (sr_index (map normalise_secref secref))
                                                    (sr_cols_keep secref_cols) r))
                                    (map normalise_sirca sirca)),
           n_step2 = length (filter (\<lambda>r. fst (step2_row (isin_index (map normalise_master master))
                                                        (mc_cols_keep master_cols) r))
                                    (merged1 sirca secref secref_cols)),
           n_step3 = length (filter (\<lambda>r. fst (step3_row (symbol_index (map normalise_master master))
                                                        (mc_cols_keep master_cols) r))
                                    (merged2 sirca secref secref_cols master master_cols)),
           output_cols = select_output_cols (merged3 sirca secref secref_cols master master_cols)
                                            sirca_cols,
           written = writerows (select_output_cols
                                  (merged3 sirca secref secref_cols master master_cols) sirca_cols)
                               (merged3 sirca secref secref_cols master master_cols) \<rparr>"
proof -
  have keys: "\<forall>r \<in> set (map normalise_sirca sirca).
                r ''MS_CompanyID'' \<noteq> None \<and> r ''MS_SecurityID'' \<noteq> None"
    by (auto simp: normalise_sirca_keys)
  show ?thesis
    unfolding generate_def Let_def
    by (simp add: build_sr_lookup_normalised build_mc_isin_lookup_normalised
                  build_mc_symbol_lookup_normalised step1_map[OF keys] step2_map step3_map
                  merged1_def merged2_def merged3_def del: map_map filter_map)
qed

lemma join1_other:
  "k \<notin> (\<lambda>c. ''SR_'' @ c) ` set keep \<Longrightarrow> snd (join1 lk keep row) k = row k"
  by (simp add: join1_def copy_cols_apply blank_cols_apply split: option.splits)

lemma step2_row_other:
  "k \<notin> (\<lambda>c. ''MC_'' @ c) ` set keep \<Longrightarrow> snd (step2_row lk keep mrow) k = mrow k"
  by (simp add: step2_row_def Let_def copy_cols_apply blank_cols_apply split: option.splits)

lemma step3_row_other:
  "k \<notin> (\<lambda>c. ''MC_'' @ c) ` set keep \<Longrightarrow> snd (step3_row lk keep mrow) k = mrow k"
  by (simp add: step3_row_def Let_def copy_cols_apply split: option.splits)

lemma length_merged3: "length (merged3 sirca secref secref_cols master master_cols) = length sirca"
  by (simp add: merged3_def merged2_def merged1_def)

lemma merged3_other:
  assumes "i < length sirca"
      and "k \<notin> (\<lambda>c. ''SR_'' @ c) ` set (sr_cols_keep secref_cols)"
      and "k \<notin> (\<lambda>c. ''MC_'' @ c) ` set (mc_cols_keep master_cols)"
  shows "(merged3 sirca secref secref_cols master master_cols ! i) k = normalise_sirca (sirca ! i) k"
  using assms
  by (simp add: merged3_def merged2_def merged1_def step3_row_other step2_row_other join1_other)

lemma fold_append_filter:
  "fold (\<lambda>col out. if P col then out @ [col] else out) cols acc = acc @ filter P cols"
  by (induction cols arbitrary: acc) auto

lemma select_output_cols_eq:
  "select_output_cols ms sirca_cols =
     filter (\<lambda>c. c \<in> available ms) output_cols0
     @ filter (\<lambda>c. c \<notin> set (filter (\<lambda>c. c \<in> available ms) output_cols0) \<and> c \<notin> skip) sirca_cols"
  unfolding select_output_cols_def Let_def by (rule fold_append_filter)

lemma build_sr_lookup_empty_key:
  "build_sr_lookup rows lk0 = Inr lk \<Longrightarrow> lk ('''', '''') = lk0 ('''', '''')"
proof (induction rows arbitrary: lk0)
  case Nil
  then show ?case by simp
next
  case (Cons row rest)
  show ?case
  proof (cases "subscript row ''CompanyId''")
    case (Inl e)
    with Cons.prems show ?thesis by simp
  next
    case a: (Inr a)
    show ?thesis
    proof (cases "subscript row ''ShareClassId''")
      case (Inl e)
      with a Cons.prems show ?thesis by simp
    next
      case b: (Inr b)
      show ?thesis
      proof (cases "(a, b) \<notin> dom lk0 \<and> (a, b) \<noteq> ('''', '''')")
        case True
        with a b Cons.prems have "build_sr_lookup rest (lk0((a, b) \<mapsto> row)) = Inr lk"
          by (simp add: Let_def)
        from Cons.IH[OF this] True show ?thesis by auto
      next
        case False
        with a b Cons.prems have "build_sr_lookup rest lk0 = Inr lk"
          by (auto simp: Let_def split: if_splits)
        from Cons.IH[OF this] show ?thesis .
      qed
    qed
  qed
qed

lemma build_mc_isin_lookup_empty_key:
  "build_mc_isin_lookup rows lk0 = Inr lk \<Longrightarrow> lk '''' = lk0 ''''"
proof (induction rows arbitrary: lk0)
  case Nil
  then show ?case by simp
next
  case (Cons row rest)
  show ?case
  proof (cases "subscript row ''ISIN''")
    case (Inl e)
    with Cons.prems show ?thesis by simp
  next
    case a: (Inr isin)
    show ?thesis
    proof (cases "isin \<noteq> '''' \<and> isin \<notin> dom lk0")
      case True
      with a Cons.prems have "build_mc_isin_lookup rest (lk0(isin \<mapsto> row)) = Inr lk"
        by simp
      from Cons.IH[OF this] True show ?thesis by auto
    next
      case False
      with a Cons.prems have "build_mc_isin_lookup rest lk0 = Inr lk"
        by (auto split: if_splits)
      from Cons.IH[OF this] show ?thesis .
    qed
  qed
qed

lemma build_mc_symbol_lookup_empty_key:
  "build_mc_symbol_lookup rows lk0 = Inr lk \<Longrightarrow> lk '''' = lk0 ''''"
proof (induction rows arbitrary: lk0)
  case Nil
  then show ?case by simp
next
  case (Cons row rest)
  show ?case
  proof (cases "subscript row ''Symbol''")
    case (Inl e)
    with Cons.prems show ?thesis by simp
  next
    case a: (Inr s)
    show ?thesis
    proof (cases "upper s \<noteq> '''' \<and> upper s \<notin> dom lk0")
      case True
      with a Cons.prems have "build_mc_symbol_lookup rest (lk0(upper s \<mapsto> row)) = Inr lk"
        by (simp add: Let_def)
      from Cons.IH[OF this] True show ?thesis by auto
    next
      case False
      with a Cons.prems have "build_mc_symbol_lookup rest lk0 = Inr lk"
        by (auto simp: Let_def split: if_splits)
      from Cons.IH[OF this] show ?thesis .
    qed
  qed
qed


lemma find_nonempty_master:
  "List.find P (map normalise_master master) = Some r \<Longrightarrow> r \<noteq> Map.empty"
  by (auto simp: find_Some_iff normalise_master_nonempty)


lemma step2_row_first:
  assumes "get mrow ''SR_ISIN'' '''' \<noteq> ''''"
      and "List.find (\<lambda>x. get x ''ISIN'' '''' = get mrow ''SR_ISIN'' '''')
                     (map normalise_master master) = Some r"
  shows "step2_row (isin_index (map normalise_master master)) keep mrow
           = (True, copy_cols ''MC_'' r keep mrow)"
  using assms find_nonempty_master[OF assms(2)]
  by (auto simp: step2_row_def Let_def isin_index_def truthy_row_def)

lemma step3_row_first:
  assumes "\<not> has_mc_data mrow" "ticker_of mrow \<noteq> ''''"
      and "List.find (\<lambda>x. upper (get x ''Symbol'' '''') = ticker_of mrow)
                     (map normalise_master master) = Some r"
  shows "step3_row (symbol_index (map normalise_master master)) keep mrow
           = (True, copy_cols ''MC_'' r keep mrow)"
  using assms find_nonempty_master[OF assms(3)]
  by (auto simp: step3_row_def symbol_probe_def Let_def symbol_index_def truthy_row_def)

lemma sr_key_normalise_secref:
  "sr_key (normalise_secref x) = (strip (get x ''CompanyId'' ''''), strip (get x ''ShareClassId'' ''''))"
  by (simp add: sr_key_def get_def normalise_secref_keys)


lemma step1_row_empty_key:
  "row ''MS_CompanyID'' = Some '''' \<Longrightarrow> row ''MS_SecurityID'' = Some '''' \<Longrightarrow>
   step1_row lk keep row = Inr (False, blank_cols ''SR_'' keep row)"
  by (simp add: step1_row_def subscript_def Let_def)

lemma step2_row_empty_key:
  "get mrow ''SR_ISIN'' '''' = '''' \<Longrightarrow> step2_row lk keep mrow = (False, blank_cols ''MC_'' keep mrow)"
  by (simp add: step2_row_def Let_def)

lemma step3_row_empty_key:
  "ticker_of mrow = '''' \<Longrightarrow> step3_row lk keep mrow = (False, mrow)"
  by (simp add: step3_row_def symbol_probe_def Let_def)




lemma dom_join1: "dom (snd (join1 lk keep row)) = dom row \<union> (\<lambda>c. ''SR_'' @ c) ` set keep"
  by (simp add: join1_def dom_copy_cols dom_blank_cols split: option.splits)

lemma dom_step2_row:
  "dom (snd (step2_row lk keep mrow)) = dom mrow \<union> (\<lambda>c. ''MC_'' @ c) ` set keep"
  by (simp add: step2_row_def Let_def dom_copy_cols dom_blank_cols split: option.splits)

lemma dom_step3_row:
  "(\<lambda>c. ''MC_'' @ c) ` set keep \<subseteq> dom mrow \<Longrightarrow> dom (snd (step3_row lk keep mrow)) = dom mrow"
  by (auto simp: step3_row_def Let_def dom_copy_cols split: option.splits)

lemma join1_unmatched:
  "\<not> fst (join1 lk keep row) \<Longrightarrow> snd (join1 lk keep row) = blank_cols ''SR_'' keep row"
  by (simp add: join1_def split: option.splits if_splits)

lemma step2_row_unmatched:
  "\<not> fst (step2_row lk keep mrow) \<Longrightarrow> snd (step2_row lk keep mrow) = blank_cols ''MC_'' keep mrow"
  by (simp add: step2_row_def Let_def split: option.splits if_splits)

lemma step3_row_unmatched:
  "\<not> fst (step3_row lk keep mrow) \<Longrightarrow> snd (step3_row lk keep mrow) = mrow"
  by (simp add: step3_row_def Let_def split: option.splits if_splits)

lemma sr_not_mc: "''SR_'' @ c \<notin> (\<lambda>c. ''MC_'' @ c) ` set keep"
  by auto

lemma merged1_nth:
  "i < length sirca \<Longrightarrow>
   merged1 sirca secref secref_cols ! i =
     snd (join1 (sr_index (map normalise_secref secref)) (sr_cols_keep secref_cols)
                (normalise_sirca (sirca ! i)))"
  by (simp add: merged1_def)

lemma merged2_nth:
  "i < length sirca \<Longrightarrow>
   merged2 sirca secref secref_cols master master_cols ! i =
     snd (step2_row (isin_index (map normalise_master master)) (mc_cols_keep master_cols)
                    (merged1 sirca secref secref_cols ! i))"
  by (simp add: merged2_def merged1_def)

lemma merged3_nth:
  "i < length sirca \<Longrightarrow>
   merged3 sirca secref secref_cols master master_cols ! i =
     snd (step3_row (symbol_index (map normalise_master master)) (mc_cols_keep master_cols)
                    (merged2 sirca secref secref_cols master master_cols ! i))"
  by (simp add: merged3_def merged2_def merged1_def)

lemma step1_row_merged1:
  "i < length sirca \<Longrightarrow>
   step1_row (sr_index (map normalise_secref secref)) (sr_cols_keep secref_cols)
             (normalise_sirca (sirca ! i))
     = Inr (fst (join1 (sr_index (map normalise_secref secref)) (sr_cols_keep secref_cols)
                       (normalise_sirca (sirca ! i))),
            merged1 sirca secref secref_cols ! i)"
  by (simp add: step1_row_join1 normalise_sirca_keys merged1_nth)

lemma dom_merged3:
  assumes "m \<in> set (merged3 sirca secref secref_cols master master_cols)"
  shows "\<exists>r \<in> set sirca.
           dom m = insert ''MS_CompanyID'' (insert ''MS_SecurityID'' (dom r))
                   \<union> (\<lambda>c. ''SR_'' @ c) ` set (sr_cols_keep secref_cols)
                   \<union> (\<lambda>c. ''MC_'' @ c) ` set (mc_cols_keep master_cols)"
proof -
  from assms obtain r where r: "r \<in> set sirca" and
    m: "m = snd (step3_row (symbol_index (map normalise_master master)) (mc_cols_keep master_cols)
              (snd (step2_row (isin_index (map normalise_master master)) (mc_cols_keep master_cols)
                 (snd (join1 (sr_index (map normalise_secref secref)) (sr_cols_keep secref_cols)
                    (normalise_sirca r))))))"
    by (auto simp: merged3_def merged2_def merged1_def)
  have "dom m = insert ''MS_CompanyID'' (insert ''MS_SecurityID'' (dom r))
                   \<union> (\<lambda>c. ''SR_'' @ c) ` set (sr_cols_keep secref_cols)
                   \<union> (\<lambda>c. ''MC_'' @ c) ` set (mc_cols_keep master_cols)"
    unfolding m
    by (subst dom_step3_row) (auto simp: dom_step2_row dom_join1 dom_normalise_sirca)
  with r show ?thesis by blast
qed

lemma merged3_blank:
  assumes i: "i < length sirca"
      and u1: "\<not> fst (join1 (sr_index (map normalise_secref secref)) (sr_cols_keep secref_cols)
                        (normalise_sirca (sirca ! i)))"
      and u2: "\<not> fst (step2_row (isin_index (map normalise_master master)) (mc_cols_keep master_cols)
                        (merged1 sirca secref secref_cols ! i))"
      and u3: "\<not> fst (step3_row (symbol_index (map normalise_master master)) (mc_cols_keep master_cols)
                        (merged2 sirca secref secref_cols master master_cols ! i))"
  shows "(\<forall>c \<in> set (sr_cols_keep secref_cols).
            (merged3 sirca secref secref_cols master master_cols ! i) (''SR_'' @ c) = Some '''')
       \<and> (\<forall>c \<in> set (mc_cols_keep master_cols).
            (merged3 sirca secref secref_cols master master_cols ! i) (''MC_'' @ c) = Some '''')"
proof -
  have m3: "merged3 sirca secref secref_cols master master_cols ! i
              = merged2 sirca secref secref_cols master master_cols ! i"
    using step3_row_unmatched[OF u3] merged3_nth[OF i] by simp
  have m2: "merged2 sirca secref secref_cols master master_cols ! i
              = blank_cols ''MC_'' (mc_cols_keep master_cols) (merged1 sirca secref secref_cols ! i)"
    using step2_row_unmatched[OF u2] merged2_nth[OF i] by simp
  have m1: "merged1 sirca secref secref_cols ! i
              = blank_cols ''SR_'' (sr_cols_keep secref_cols) (normalise_sirca (sirca ! i))"
    using join1_unmatched[OF u1] merged1_nth[OF i] by simp
  show ?thesis
    by (auto simp: m3 m2 m1 blank_cols_apply)
qed

lemma step2_row_merged2:
  "i < length sirca \<Longrightarrow>
   step2_row (isin_index (map normalise_master master)) (mc_cols_keep master_cols)
             (merged1 sirca secref secref_cols ! i)
     = (fst (step2_row (isin_index (map normalise_master master)) (mc_cols_keep master_cols)
                       (merged1 sirca secref secref_cols ! i)),
        merged2 sirca secref secref_cols master master_cols ! i)"
  by (simp add: merged2_nth)

lemma step3_row_merged3:
  "i < length sirca \<Longrightarrow>
   step3_row (symbol_index (map normalise_master master)) (mc_cols_keep master_cols)
             (merged2 sirca secref secref_cols master master_cols ! i)
     = (fst (step3_row (symbol_index (map normalise_master master)) (mc_cols_keep master_cols)
                       (merged2 sirca secref secref_cols master master_cols ! i)),
        merged3 sirca secref secref_cols master master_cols ! i)"
  by (simp add: merged3_nth)

lemma step2_row_no_rows: "fst (step2_row (isin_index []) keep mrow) = False"
  by (simp add: step2_row_def isin_index_def Let_def)

lemma step3_row_no_rows: "fst (step3_row (symbol_index []) keep mrow) = False"
  by (simp add: step3_row_def symbol_probe_def symbol_index_def Let_def)

lemma generate_merged:
  "generate sirca sirca_cols secref secref_cols master master_cols = Inr res \<Longrightarrow>
   merged res = merged3 sirca secref secref_cols master master_cols"
  by (simp add: generate_eq) (erule subst, simp)

lemma blank_cols_outside:
  "take (length pre) k \<noteq> pre \<Longrightarrow> blank_cols pre cols dst k = dst k"
  by (auto simp: blank_cols_apply)

lemma copy_cols_outside:
  "take (length pre) k \<noteq> pre \<Longrightarrow> copy_cols pre src cols dst k = dst k"
  by (auto simp: copy_cols_apply)

lemma blank_cols_blank:
  "dst k = None \<or> dst k = Some '''' \<Longrightarrow>
   blank_cols pre cols dst k = None \<or> blank_cols pre cols dst k = Some ''''"
  by (auto simp: blank_cols_apply)

lemma sr_index_no_rows: "sr_index [] key = None"
  by (simp add: sr_index_def)

lemma join1_no_rows: "join1 (sr_index []) keep row = (False, blank_cols ''SR_'' keep row)"
  by (simp add: join1_def sr_probe_def Let_def sr_index_no_rows)

lemma mc_abn_in_output_cols0: "''MC_ABN'' \<in> set output_cols0"
  by (simp add: output_cols0_def)

lemma mc_cols_keep_symbol_abn: "mc_cols_keep [''Symbol'', ''ABN''] = [''ABN'']"
  by (simp add: mc_cols_keep_def mc_cols_keep0_def)

lemma scenario_norm:
  "normalise_sirca scenario_primary = scenario_primary"
  by (rule ext)
     (simp add: normalise_sirca_def scenario_primary_def Let_def clean_def get_def strip_def
                isspace_def)

lemma scenario_m1:
  "snd (join1 (sr_index (map normalise_secref [])) keep (normalise_sirca scenario_primary))
     = blank_cols ''SR_'' keep scenario_primary"
  by (simp add: join1_no_rows scenario_norm)

lemma scenario_m1_isin: "get (blank_cols ''SR_'' keep scenario_primary) ''SR_ISIN'' '''' = ''''"
  by (simp add: get_def blank_cols_apply scenario_primary_def)

lemma scenario_m2:
  "step2_row lk [''ABN''] (blank_cols ''SR_'' keep scenario_primary)
     = (False, (blank_cols ''SR_'' keep scenario_primary)(''MC_ABN'' \<mapsto> ''''))"
  by (simp add: step2_row_def Let_def scenario_m1_isin blank_cols_def[of "''MC_''"])

lemma scenario_m2_nodata:
  "\<not> has_mc_data ((blank_cols ''SR_'' keep scenario_primary)(''MC_ABN'' \<mapsto> ''''))"
  by (simp add: has_mc_data_def get_def blank_cols_outside scenario_primary_def)

lemma scenario_ticker:
  "ticker_of ((blank_cols ''SR_'' keep scenario_primary)(''MC_ABN'' \<mapsto> '''')) = ''XYZ''"
  by (simp add: ticker_of_def get_def blank_cols_outside scenario_primary_def clean_def strip_def
                isspace_def upper_def upper_char_def lower_letters_def upper_letters_def)

lemma scenario_find:
  "List.find (\<lambda>x. upper (get x ''Symbol'' '''') = ''XYZ'') (map normalise_master [scenario_tertiary])
     = Some (normalise_master scenario_tertiary)"
  by (simp add: get_def normalise_master_keys scenario_tertiary_def strip_def isspace_def
                upper_def upper_char_def lower_letters_def upper_letters_def)

lemma scenario_m3:
  "step3_row (symbol_index (map normalise_master [scenario_tertiary])) [''ABN'']
             ((blank_cols ''SR_'' keep scenario_primary)(''MC_ABN'' \<mapsto> ''''))
     = (True, (blank_cols ''SR_'' keep scenario_primary)(''MC_ABN'' \<mapsto> ''123''))"
proof -
  have "step3_row (symbol_index (map normalise_master [scenario_tertiary])) [''ABN'']
             ((blank_cols ''SR_'' keep scenario_primary)(''MC_ABN'' \<mapsto> ''''))
     = (True, copy_cols ''MC_'' (normalise_master scenario_tertiary) [''ABN'']
                ((blank_cols ''SR_'' keep scenario_primary)(''MC_ABN'' \<mapsto> '''')))"
    by (rule step3_row_first[OF scenario_m2_nodata]) (simp_all only: scenario_ticker scenario_find, simp)
  then show ?thesis
    by (simp add: copy_cols_def get_def normalise_master_def Let_def scenario_tertiary_def)
qed

lemma scenario_merged3:
  "merged3 [scenario_primary] [] secref_cols [scenario_tertiary] [''Symbol'', ''ABN'']
     = [(blank_cols ''SR_'' (sr_cols_keep secref_cols) scenario_primary)(''MC_ABN'' \<mapsto> ''123'')]"
  by (simp add: merged3_def merged2_def merged1_def mc_cols_keep_symbol_abn)
     (simp only: scenario_m1[simplified] scenario_m2 snd_conv scenario_m3[simplified])

lemma scenario_sr_fields:
  assumes "((blank_cols ''SR_'' keep scenario_primary)(''MC_ABN'' \<mapsto> ''123'')) k = Some v"
      and "take 3 k = ''SR_''"
  shows "v = ''''"
proof -
  have ne: "k \<noteq> ''MC_ABN''"
  proof
    assume "k = ''MC_ABN''"
    with assms(2) show False by simp
  qed
  have n1: "k \<noteq> ''MS_CompanyID''"
  proof
    assume "k = ''MS_CompanyID''"
    with assms(2) show False by simp
  qed
  have n2: "k \<noteq> ''MS_SecurityID''"
  proof
    assume "k = ''MS_SecurityID''"
    with assms(2) show False by simp
  qed
  have n3: "k \<noteq> ''CompanyTicker''"
  proof
    assume "k = ''CompanyTicker''"
    with assms(2) show False by simp
  qed
  from n1 n2 n3 have np: "scenario_primary k = None"
    by (simp add: scenario_primary_def)
  from assms(1) ne have "blank_cols ''SR_'' keep scenario_primary k = Some v" by simp
  with blank_cols_blank[of scenario_primary k "''SR_''" keep] np show ?thesis by simp
qed

lemma scenario_sr_kept:
  "c \<in> set keep \<Longrightarrow>
   ((blank_cols ''SR_'' keep scenario_primary)(''MC_ABN'' \<mapsto> ''123'')) (''SR_'' @ c) = Some ''''"
  by (simp add: blank_cols_apply)

lemma scenario_header:
  "''MC_ABN'' \<in> set (select_output_cols [(blank_cols ''SR_'' keep scenario_primary)(''MC_ABN'' \<mapsto> ''123'')]
                                          sirca_cols)"
  by (simp add: select_output_cols_eq available_def mc_abn_in_output_cols0)

lemma scenario_counts:
  "length (filter (\<lambda>r. fst (join1 (sr_index (map normalise_secref [])) keep r))
                  (map normalise_sirca [scenario_primary])) = 0"
  "length (filter (\<lambda>r. fst (step2_row (isin_index (map normalise_master [scenario_tertiary]))
                                       (mc_cols_keep [''Symbol'', ''ABN'']) r))
                  (merged1 [scenario_primary] [] secref_cols)) = 0"
  "length (filter (\<lambda>r. fst (step3_row (symbol_index (map normalise_master [scenario_tertiary]))
                                       (mc_cols_keep [''Symbol'', ''ABN'']) r))
                  (merged2 [scenario_primary] [] secref_cols [scenario_tertiary] [''Symbol'', ''ABN''])) = 1"
proof -
  show "length (filter (\<lambda>r. fst (join1 (sr_index (map normalise_secref [])) keep r))
                  (map normalise_sirca [scenario_primary])) = 0"
    by (simp add: join1_no_rows)
  have m1: "merged1 [scenario_primary] [] secref_cols
              = [blank_cols ''SR_'' (sr_cols_keep secref_cols) scenario_primary]"
    by (simp add: merged1_def) (simp only: scenario_m1[simplified])
  show "length (filter (\<lambda>r. fst (step2_row (isin_index (map normalise_master [scenario_tertiary]))
                                       (mc_cols_keep [''Symbol'', ''ABN'']) r))
                  (merged1 [scenario_primary] [] secref_cols)) = 0"
    by (simp only: m1 mc_cols_keep_symbol_abn) (simp add: scenario_m2)
  have m2: "merged2 [scenario_primary] [] secref_cols [scenario_tertiary] [''Symbol'', ''ABN'']
              = [(blank_cols ''SR_'' (sr_cols_keep secref_cols) scenario_primary)(''MC_ABN'' \<mapsto> '''')]"
    by (simp only: merged2_def m1 mc_cols_keep_symbol_abn) (simp add: scenario_m2)
  show "length (filter (\<lambda>r. fst (step3_row (symbol_index (map normalise_master [scenario_tertiary]))
                                       (mc_cols_keep [''Symbol'', ''ABN'']) r))
                  (merged2 [scenario_primary] [] secref_cols [scenario_tertiary] [''Symbol'', ''ABN''])) = 1"
    by (simp only: m2 mc_cols_keep_symbol_abn) (simp add: scenario_m3[simplified])
qed

lemma sr_cols_keep_isin: "sr_cols_keep [''ISIN''] = [''ISIN'']"
  by (simp add: sr_cols_keep_def sr_cols_keep0_def)

lemma bug_keep1: "sr_cols_keep [''CompanyId'', ''ShareClassId'', ''ISIN''] = [''CompanyId'', ''ShareClassId'', ''ISIN'']"
  by (simp add: sr_cols_keep_def sr_cols_keep0_def)

lemma bug_keep2: "mc_cols_keep [''ISIN'', ''Symbol'', ''ABN''] = [''ISIN'', ''ABN'']"
  by (simp add: mc_cols_keep_def mc_cols_keep0_def)

lemma bug_norm: "normalise_sirca bug_primary = bug_primary"
  by (rule ext)
     (simp add: normalise_sirca_def bug_primary_def Let_def clean_def get_def strip_def isspace_def)

lemma bug_probe1:
  "sr_probe (sr_index (map normalise_secref [bug_secondary])) bug_primary
     = Some (normalise_secref bug_secondary)"
  by (simp add: sr_probe_def Let_def sr_index_def sr_key_normalise_secref get_def
                bug_primary_def bug_secondary_def strip_def isspace_def)

lemma bug_m1:
  "merged1 [bug_primary] [bug_secondary] [''CompanyId'', ''ShareClassId'', ''ISIN'']
     = [bug_after_step1]"
proof -
  have "join1 (sr_index (map normalise_secref [bug_secondary]))
              [''CompanyId'', ''ShareClassId'', ''ISIN''] bug_primary
          = (True, copy_cols ''SR_'' (normalise_secref bug_secondary)
                     [''CompanyId'', ''ShareClassId'', ''ISIN''] bug_primary)"
    by (simp only: join1_def bug_probe1 option.case normalise_secref_nonempty) simp
  also have "copy_cols ''SR_'' (normalise_secref bug_secondary)
                     [''CompanyId'', ''ShareClassId'', ''ISIN''] bug_primary
          = bug_primary(''SR_CompanyId'' \<mapsto> ''1'', ''SR_ShareClassId'' \<mapsto> ''A'', ''SR_ISIN'' \<mapsto> ''AU01'')"
    by (simp add: copy_cols_def get_def normalise_secref_keys bug_secondary_def strip_def isspace_def)
  finally show ?thesis
    by (simp only: merged1_def list.map bug_norm bug_keep1 snd_conv bug_after_step1_def)
qed

lemma bug_step2:
  "step2_row (isin_index (map normalise_master bug_tertiary)) [''ISIN'', ''ABN''] bug_after_step1
     = (True, bug_after_step2)"
proof -
  have g: "get bug_after_step1 ''SR_ISIN'' '''' = ''AU01''"
    by (simp add: get_def bug_after_step1_def)
  have f: "List.find (\<lambda>x. get x ''ISIN'' '''' = get bug_after_step1 ''SR_ISIN'' '''')
             (map normalise_master bug_tertiary) = Some (normalise_master (bug_tertiary ! 0))"
    by (simp only: g) (simp add: bug_tertiary_def get_def normalise_master_keys strip_def isspace_def)
  have "step2_row (isin_index (map normalise_master bug_tertiary)) [''ISIN'', ''ABN''] bug_after_step1
          = (True, copy_cols ''MC_'' (normalise_master (bug_tertiary ! 0)) [''ISIN'', ''ABN'']
                     bug_after_step1)"
    by (rule step2_row_first[OF _ f]) (simp add: g)
  also have "copy_cols ''MC_'' (normalise_master (bug_tertiary ! 0)) [''ISIN'', ''ABN''] bug_after_step1
          = bug_after_step2"
    by (simp add: copy_cols_def get_def normalise_master_def Let_def bug_tertiary_def
                  bug_after_step2_def clean_def strip_def isspace_def)
  finally show ?thesis .
qed

lemma bug_step3:
  "step3_row (symbol_index (map normalise_master bug_tertiary)) [''ISIN'', ''ABN''] bug_after_step2
     = (True, bug_after_step3)"
proof -
  have h: "\<not> has_mc_data bug_after_step2"
    by (simp add: has_mc_data_def get_def bug_after_step2_def bug_after_step1_def bug_primary_def)
  have t: "ticker_of bug_after_step2 = ''TCK''"
    by (simp add: ticker_of_def get_def bug_after_step2_def bug_after_step1_def bug_primary_def
                  clean_def strip_def isspace_def upper_def upper_char_def lower_letters_def upper_letters_def)
  have f: "List.find (\<lambda>x. upper (get x ''Symbol'' '''') = ticker_of bug_after_step2)
             (map normalise_master bug_tertiary) = Some (normalise_master (bug_tertiary ! 1))"
    by (simp only: t)
       (simp add: bug_tertiary_def get_def normalise_master_keys strip_def isspace_def
                  upper_def upper_char_def lower_letters_def upper_letters_def)
  have "step3_row (symbol_index (map normalise_master bug_tertiary)) [''ISIN'', ''ABN''] bug_after_step2
          = (True, copy_cols ''MC_'' (normalise_master (bug_tertiary ! 1)) [''ISIN'', ''ABN'']
                     bug_after_step2)"
    by (rule step3_row_first[OF h _ f]) (simp add: t)
  also have "copy_cols ''MC_'' (normalise_master (bug_tertiary ! 1)) [''ISIN'', ''ABN''] bug_after_step2
          = bug_after_step3"
    by (simp add: copy_cols_def get_def normalise_master_def Let_def bug_tertiary_def
                  bug_after_step3_def clean_def strip_def isspace_def)
  finally show ?thesis .
qed

lemma bug_m2:
  "merged2 [bug_primary] [bug_secondary] [''CompanyId'', ''ShareClassId'', ''ISIN'']
           bug_tertiary [''ISIN'', ''Symbol'', ''ABN''] = [bug_after_step2]"
  by (simp only: merged2_def bug_m1 bug_keep2 list.map bug_step2 snd_conv)

lemma bug_m3:
  "merged3 [bug_primary] [bug_secondary] [''CompanyId'', ''ShareClassId'', ''ISIN'']
           bug_tertiary [''ISIN'', ''Symbol'', ''ABN''] = [bug_after_step3]"
  by (simp only: merged3_def bug_m2 bug_keep2 list.map bug_step3 snd_conv)

lemma bug_counts:
  "length (filter (\<lambda>r. fst (step2_row (isin_index (map normalise_master bug_tertiary))
                                       (mc_cols_keep [''ISIN'', ''Symbol'', ''ABN'']) r))
                  (merged1 [bug_primary] [bug_secondary] [''CompanyId'', ''ShareClassId'', ''ISIN''])) = 1"
  "length (filter (\<lambda>r. fst (step3_row (symbol_index (map normalise_master bug_tertiary))
                                       (mc_cols_keep [''ISIN'', ''Symbol'', ''ABN'']) r))
                  (merged2 [bug_primary] [bug_secondary] [''CompanyId'', ''ShareClassId'', ''ISIN'']
                           bug_tertiary [''ISIN'', ''Symbol'', ''ABN''])) = 1"
  by (simp_all only: bug_m1 bug_m2 bug_keep2) (simp_all add: bug_step2 bug_step3)

lemma step3_row_skips_rows_with_data:
  "has_mc_data mrow \<Longrightarrow> step3_row lk keep mrow = (False, mrow)"
  by (simp add: step3_row_def)

lemma dom_merged3_nth:
  assumes "i < length sirca"
  shows "dom (merged3 sirca secref secref_cols master master_cols ! i)
           = insert ''MS_CompanyID'' (insert ''MS_SecurityID'' (dom (sirca ! i)))
             \<union> (\<lambda>c. ''SR_'' @ c) ` set (sr_cols_keep secref_cols)
             \<union> (\<lambda>c. ''MC_'' @ c) ` set (mc_cols_keep master_cols)"
  unfolding merged3_nth[OF assms] merged2_nth[OF assms] merged1_nth[OF assms]
  by (subst dom_step3_row) (auto simp: dom_step2_row dom_join1 dom_normalise_sirca)

lemma upper_latin1_examples:
  "upper ''Stra'' @ upper [CHR 0xDF] @ upper ''e'' = ''STRASSE''"
  "upper [CHR 0xE9, CHR 0xF7, CHR 0xFE] = [CHR 0xC9, CHR 0xF7, CHR 0xDE]"
  by (simp_all add: upper_def upper_char_def lower_letters_def upper_letters_def)

section \<open>The claims of the specification\<close>

text \<open>
  C2 (row conservation).  For all three input collections, empty ones included, the script
  does not raise, the merged list has exactly one row per primary row, in the same order,
  which keeps every field of the normalised primary row that is not one of the SR_ or MC_
  columns of the joins, and the writer puts out one line per merged row.
\<close>

theorem row_conservation:
  "\<exists>res. generate sirca sirca_cols secref secref_cols master master_cols = Inr res
     \<and> length (merged res) = length sirca
     \<and> length (written res) = length sirca
     \<and> (\<forall>i < length sirca. \<forall>k.
            k \<notin> (\<lambda>c. ''SR_'' @ c) ` set (sr_cols_keep secref_cols) \<longrightarrow>
            k \<notin> (\<lambda>c. ''MC_'' @ c) ` set (mc_cols_keep master_cols) \<longrightarrow>
            (merged res ! i) k = normalise_sirca (sirca ! i) k)
     \<and> (\<forall>i < length sirca.
            written res ! i = map (\<lambda>c. get (merged res ! i) c '''') (output_cols res))"
  by (simp add: generate_eq length_merged3 merged3_other writerows_def)

theorem row_conservation_witness:
  "\<exists>res. generate [[''Gcode'' \<mapsto> ''g1''], [''Gcode'' \<mapsto> ''g2'']] [''Gcode''] [] [] [] [] = Inr res
     \<and> length (merged res) = 2
     \<and> length (written res) = 2
     \<and> (merged res ! 1) ''Gcode'' = Some ''g2''"
proof -
  obtain res where
    g: "generate [[''Gcode'' \<mapsto> ''g1''], [''Gcode'' \<mapsto> ''g2'']] [''Gcode''] [] [] [] [] = Inr res"
    and l: "length (merged res) = length [[''Gcode'' \<mapsto> ''g1''], [''Gcode'' \<mapsto> ''g2'']]"
           "length (written res) = length [[''Gcode'' \<mapsto> ''g1''], [''Gcode'' \<mapsto> ''g2'']]"
    and k: "\<forall>i < length [[''Gcode'' \<mapsto> ''g1''], [''Gcode'' \<mapsto> ''g2'']]. \<forall>k.
            k \<notin> (\<lambda>c. ''SR_'' @ c) ` set (sr_cols_keep []) \<longrightarrow>
            k \<notin> (\<lambda>c. ''MC_'' @ c) ` set (mc_cols_keep []) \<longrightarrow>
            (merged res ! i) k = normalise_sirca ([[''Gcode'' \<mapsto> ''g1''], [''Gcode'' \<mapsto> ''g2'']] ! i) k"
    using row_conservation[of "[[''Gcode'' \<mapsto> ''g1''], [''Gcode'' \<mapsto> ''g2'']]" "[''Gcode'']" "[]" "[]" "[]" "[]"]
    by blast
  have "(merged res ! 1) ''Gcode'' = normalise_sirca ([[''Gcode'' \<mapsto> ''g1''], [''Gcode'' \<mapsto> ''g2'']] ! 1) ''Gcode''"
    using k by (simp add: sr_cols_keep_def mc_cols_keep_def)
  then have "(merged res ! 1) ''Gcode'' = Some ''g2''"
    by (simp add: normalise_sirca_def Let_def)
  with g l show ?thesis by simp
qed

text \<open>
  C8 (output columns).  The script never fails on a fixed-list name that is missing from the
  merged rows.  The header it writes is the fixed list restricted to the keys of the first
  merged row (nothing when there is no merged row), followed by the primary file's columns, in
  header order, that are neither in that restricted list nor one of join_key,
  ListDate_DaysSince, DelistDate_DaysSince; each merged row is written as its values at these
  columns, the empty string for a key it lacks.
\<close>

theorem output_columns:
  "\<exists>res. generate sirca sirca_cols secref secref_cols master master_cols = Inr res
     \<and> output_cols res =
         filter (\<lambda>c. c \<in> (case merged res of [] \<Rightarrow> {} | m # _ \<Rightarrow> dom m)) output_cols0
         @ filter (\<lambda>c. c \<notin> set (filter (\<lambda>c. c \<in> (case merged res of [] \<Rightarrow> {} | m # _ \<Rightarrow> dom m))
                                       output_cols0)
                      \<and> c \<notin> {''join_key'', ''ListDate_DaysSince'', ''DelistDate_DaysSince''})
                  sirca_cols
     \<and> written res = map (\<lambda>m. map (\<lambda>c. get m c '''') (output_cols res)) (merged res)"
  by (simp add: generate_eq select_output_cols_eq available_def skip_def writerows_def)

text \<open>
  C10 (empty primary collection).  With no primary row there is no merged row, the set of
  available names is empty, no name of the fixed list survives the filter, and the header is
  exactly the primary file's columns outside the exclusion set, in header order; no line is
  written below it.
\<close>

theorem empty_primary_header:
  "\<exists>res. generate [] sirca_cols secref secref_cols master master_cols = Inr res
     \<and> merged res = []
     \<and> available (merged res) = {}
     \<and> filter (\<lambda>c. c \<in> available (merged res)) output_cols0 = []
     \<and> output_cols res =
         filter (\<lambda>c. c \<notin> {''join_key'', ''ListDate_DaysSince'', ''DelistDate_DaysSince''}) sirca_cols
     \<and> written res = []"
  by (simp add: generate_eq select_output_cols_eq available_def skip_def writerows_def
                merged3_def merged2_def merged1_def)



text \<open>
  C5 (no empty key).  The builders succeed on the normalised collections, and whenever a
  builder returns an index, from any list of rows, that index has no entry under the empty
  key: the pair of two empty strings for the composite index, the empty string for the ISIN
  and the symbol index.  A primary row whose two key fields are both empty takes the no-match
  branch of step 1 whatever the index holds; so does a merged row with an empty SR_ISIN in
  step 2; a merged row whose cleaned, uppercased ticker is empty leaves step 3 unchanged.
\<close>

theorem no_empty_key:
  "(\<exists>l1 l2 l3. build_sr_lookup (map normalise_secref secref) Map.empty = Inr l1
        \<and> build_mc_isin_lookup (map normalise_master master) Map.empty = Inr l2
        \<and> build_mc_symbol_lookup (map normalise_master master) Map.empty = Inr l3)
   \<and> (\<forall>rows lk. build_sr_lookup rows Map.empty = Inr lk \<longrightarrow> lk ('''', '''') = None)
   \<and> (\<forall>rows lk. build_mc_isin_lookup rows Map.empty = Inr lk \<longrightarrow> lk '''' = None)
   \<and> (\<forall>rows lk. build_mc_symbol_lookup rows Map.empty = Inr lk \<longrightarrow> lk '''' = None)
   \<and> (\<forall>lk keep row. row ''MS_CompanyID'' = Some '''' \<longrightarrow> row ''MS_SecurityID'' = Some '''' \<longrightarrow>
          step1_row lk keep row = Inr (False, blank_cols ''SR_'' keep row))
   \<and> (\<forall>lk keep mrow. get mrow ''SR_ISIN'' '''' = '''' \<longrightarrow>
          step2_row lk keep mrow = (False, blank_cols ''MC_'' keep mrow))
   \<and> (\<forall>lk keep mrow. ticker_of mrow = '''' \<longrightarrow> step3_row lk keep mrow = (False, mrow))"
proof (intro conjI allI impI)
  show "\<exists>l1 l2 l3. build_sr_lookup (map normalise_secref secref) Map.empty = Inr l1
        \<and> build_mc_isin_lookup (map normalise_master master) Map.empty = Inr l2
        \<and> build_mc_symbol_lookup (map normalise_master master) Map.empty = Inr l3"
    by (simp add: build_sr_lookup_normalised build_mc_isin_lookup_normalised
                  build_mc_symbol_lookup_normalised)
next
  fix rows lk assume "build_sr_lookup rows Map.empty = Inr lk"
  from build_sr_lookup_empty_key[OF this] show "lk ('''', '''') = None" by simp
next
  fix rows lk assume "build_mc_isin_lookup rows Map.empty = Inr lk"
  from build_mc_isin_lookup_empty_key[OF this] show "lk '''' = None" by simp
next
  fix rows lk assume "build_mc_symbol_lookup rows Map.empty = Inr lk"
  from build_mc_symbol_lookup_empty_key[OF this] show "lk '''' = None" by simp
next
  fix lk :: sr_index and keep and row :: row
  assume "row ''MS_CompanyID'' = Some ''''" "row ''MS_SecurityID'' = Some ''''"
  then show "step1_row lk keep row = Inr (False, blank_cols ''SR_'' keep row)"
    by (rule step1_row_empty_key)
next
  fix lk :: mc_index and keep and mrow :: row
  assume "get mrow ''SR_ISIN'' '''' = ''''"
  then show "step2_row lk keep mrow = (False, blank_cols ''MC_'' keep mrow)"
    by (rule step2_row_empty_key)
next
  fix lk :: mc_index and keep :: "string list" and mrow :: row
  assume "ticker_of mrow = ''''"
  then show "step3_row lk keep mrow = (False, mrow)"
    by (rule step3_row_empty_key)
qed

theorem no_empty_key_witness:
  "\<exists>l1 l2 l3.
      build_sr_lookup
        (map normalise_secref [[''CompanyId'' \<mapsto> '' '', ''ShareClassId'' \<mapsto> '''', ''ISIN'' \<mapsto> ''I9'']])
        Map.empty = Inr l1
    \<and> build_mc_isin_lookup (map normalise_master [[''ISIN'' \<mapsto> '''', ''Symbol'' \<mapsto> ''  '']])
        Map.empty = Inr l2
    \<and> build_mc_symbol_lookup (map normalise_master [[''ISIN'' \<mapsto> '''', ''Symbol'' \<mapsto> ''  '']])
        Map.empty = Inr l3
    \<and> l1 ('''', '''') = None \<and> l2 '''' = None \<and> l3 '''' = None
    \<and> step1_row l1 [''ISIN''] [''MS_CompanyID'' \<mapsto> '''', ''MS_SecurityID'' \<mapsto> '''']
        = Inr (False, [''MS_CompanyID'' \<mapsto> '''', ''MS_SecurityID'' \<mapsto> '''', ''SR_ISIN'' \<mapsto> ''''])
    \<and> step2_row l2 [''ABN''] [''SR_ISIN'' \<mapsto> '''']
        = (False, [''SR_ISIN'' \<mapsto> '''', ''MC_ABN'' \<mapsto> ''''])
    \<and> step3_row l3 [''ABN''] [''CompanyTicker'' \<mapsto> ''  ''] = (False, [''CompanyTicker'' \<mapsto> ''  ''])"
proof -
  let ?s = "[[''CompanyId'' \<mapsto> '' '', ''ShareClassId'' \<mapsto> '''', ''ISIN'' \<mapsto> ''I9'']]"
  let ?m = "[[''ISIN'' \<mapsto> '''', ''Symbol'' \<mapsto> ''  '']]"
  have "?thesis" using no_empty_key[of ?s ?m]
  proof (elim exE conjE)
    fix l1 l2 l3
    assume
      b1: "build_sr_lookup (map normalise_secref ?s) Map.empty = Inr l1" and
      b2: "build_mc_isin_lookup (map normalise_master ?m) Map.empty = Inr l2" and
      b3: "build_mc_symbol_lookup (map normalise_master ?m) Map.empty = Inr l3" and
      e1: "\<forall>rows lk. build_sr_lookup rows Map.empty = Inr lk \<longrightarrow> lk ('''', '''') = None" and
      e2: "\<forall>rows lk. build_mc_isin_lookup rows Map.empty = Inr lk \<longrightarrow> lk '''' = None" and
      e3: "\<forall>rows lk. build_mc_symbol_lookup rows Map.empty = Inr lk \<longrightarrow> lk '''' = None" and
      u1: "\<forall>lk keep row. row ''MS_CompanyID'' = Some '''' \<longrightarrow> row ''MS_SecurityID'' = Some '''' \<longrightarrow>
             step1_row lk keep row = Inr (False, blank_cols ''SR_'' keep row)" and
      u2: "\<forall>lk keep mrow. get mrow ''SR_ISIN'' '''' = '''' \<longrightarrow>
             step2_row lk keep mrow = (False, blank_cols ''MC_'' keep mrow)" and
      u3: "\<forall>lk keep mrow. ticker_of mrow = '''' \<longrightarrow> step3_row lk keep mrow = (False, mrow)"
    have k1: "l1 ('''', '''') = None" using e1 b1 by blast
    have k2: "l2 '''' = None" using e2 b2 by blast
    have k3: "l3 '''' = None" using e3 b3 by blast
    have s1: "step1_row l1 [''ISIN''] [''MS_CompanyID'' \<mapsto> '''', ''MS_SecurityID'' \<mapsto> '''']
                = Inr (False, blank_cols ''SR_'' [''ISIN''] [''MS_CompanyID'' \<mapsto> '''', ''MS_SecurityID'' \<mapsto> ''''])"
      by (rule u1[rule_format]) simp_all
    have s2: "step2_row l2 [''ABN''] [''SR_ISIN'' \<mapsto> '''']
                = (False, blank_cols ''MC_'' [''ABN''] [''SR_ISIN'' \<mapsto> ''''])"
      by (rule u2[rule_format]) (simp add: get_def)
    have s3: "step3_row l3 [''ABN''] [''CompanyTicker'' \<mapsto> ''  ''] = (False, [''CompanyTicker'' \<mapsto> ''  ''])"
      by (rule u3[rule_format])
         (simp add: ticker_of_def get_def clean_def strip_def isspace_def upper_def)
    from b1 b2 b3 k1 k2 k3 s1 s2 s3 show ?thesis
      by (simp only: blank_cols_def fold_simps id_apply comp_apply append.simps) blast
  qed
  then show ?thesis .
qed





text \<open>
  C3 (schema uniformity) does not hold as stated.  \<open>new_row = dict(row)\<close> copies whatever keys
  the primary row has, and normalisation writes MS_CompanyID and MS_SecurityID into every
  primary row, also when the header lacks them.  So a primary file with the one column Gcode
  and a second line that is longer than the header gives two merged rows with different key
  sets, and both have MS_CompanyID and MS_SecurityID besides the primary column.
\<close>

theorem schema_uniform_counterexample:
  "\<not> isl (generate [[''Gcode'' \<mapsto> ''g1''], [''Gcode'' \<mapsto> ''g2'', restkey \<mapsto> ''x'']]
                     [''Gcode''] [] [] [] [])
   \<and> dom (merged (projr (generate [[''Gcode'' \<mapsto> ''g1''], [''Gcode'' \<mapsto> ''g2'', restkey \<mapsto> ''x'']]
                                   [''Gcode''] [] [] [] [])) ! 0)
       = {''Gcode'', ''MS_CompanyID'', ''MS_SecurityID''}
   \<and> dom (merged (projr (generate [[''Gcode'' \<mapsto> ''g1''], [''Gcode'' \<mapsto> ''g2'', restkey \<mapsto> ''x'']]
                                   [''Gcode''] [] [] [] [])) ! 1)
       = {''Gcode'', restkey, ''MS_CompanyID'', ''MS_SecurityID''}
   \<and> dom (merged (projr (generate [[''Gcode'' \<mapsto> ''g1''], [''Gcode'' \<mapsto> ''g2'', restkey \<mapsto> ''x'']]
                                   [''Gcode''] [] [] [] [])) ! 0)
       \<noteq> dom (merged (projr (generate [[''Gcode'' \<mapsto> ''g1''], [''Gcode'' \<mapsto> ''g2'', restkey \<mapsto> ''x'']]
                                      [''Gcode''] [] [] [] [])) ! 1)
   \<and> dom (merged (projr (generate [[''Gcode'' \<mapsto> ''g1''], [''Gcode'' \<mapsto> ''g2'', restkey \<mapsto> ''x'']]
                                   [''Gcode''] [] [] [] [])) ! 0)
       \<noteq> set [''Gcode''] \<union> (\<lambda>c. ''SR_'' @ c) ` set (sr_cols_keep [])
                            \<union> (\<lambda>c. ''MC_'' @ c) ` set (mc_cols_keep [])"
proof -
  let ?sirca = "[[''Gcode'' \<mapsto> ''g1''], [''Gcode'' \<mapsto> ''g2'', restkey \<mapsto> ''x'']]"
  let ?g = "generate ?sirca [''Gcode''] [] [] [] []"
  have k: "sr_cols_keep [] = []" "mc_cols_keep [] = []"
    by (simp_all add: sr_cols_keep_def mc_cols_keep_def)
  have m: "merged (projr ?g) = merged3 ?sirca [] [] [] []"
    by (simp add: generate_eq)
  have l: "\<not> isl ?g" by (simp add: generate_eq)
  have i0: "(0::nat) < length ?sirca" and i1: "(1::nat) < length ?sirca" by simp_all
  have d0: "dom (merged (projr ?g) ! 0) = {''Gcode'', ''MS_CompanyID'', ''MS_SecurityID''}"
    by (simp only: m dom_merged3_nth[OF i0] k) (simp add: insert_commute)
  have d1: "dom (merged (projr ?g) ! 1) = {''Gcode'', restkey, ''MS_CompanyID'', ''MS_SecurityID''}"
    by (simp only: m dom_merged3_nth[OF i1] k) (simp add: insert_commute)
  have r: "restkey \<in> {''Gcode'', restkey, ''MS_CompanyID'', ''MS_SecurityID''}" by simp
  have nr: "restkey \<notin> {''Gcode'', ''MS_CompanyID'', ''MS_SecurityID''}"
    by (simp add: restkey_def)
  have ne: "dom (merged (projr ?g) ! 0) \<noteq> dom (merged (projr ?g) ! 1)"
  proof
    assume eq: "dom (merged (projr ?g) ! 0) = dom (merged (projr ?g) ! 1)"
    have "restkey \<in> dom (merged (projr ?g) ! 1)" by (subst d1) (rule r)
    then have "restkey \<in> dom (merged (projr ?g) ! 0)" by (subst eq)
    then have "restkey \<in> {''Gcode'', ''MS_CompanyID'', ''MS_SecurityID''}" by (subst (asm) d0)
    with nr show False by (rule notE)
  qed
  have nm: "''MS_CompanyID'' \<notin> set [''Gcode''] \<union> (\<lambda>c. ''SR_'' @ c) ` set (sr_cols_keep [])
                            \<union> (\<lambda>c. ''MC_'' @ c) ` set (mc_cols_keep [])"
    by (simp add: k)
  have ns: "dom (merged (projr ?g) ! 0)
       \<noteq> set [''Gcode''] \<union> (\<lambda>c. ''SR_'' @ c) ` set (sr_cols_keep [])
                            \<union> (\<lambda>c. ''MC_'' @ c) ` set (mc_cols_keep [])"
  proof
    assume eq: "dom (merged (projr ?g) ! 0)
       = set [''Gcode''] \<union> (\<lambda>c. ''SR_'' @ c) ` set (sr_cols_keep [])
                            \<union> (\<lambda>c. ''MC_'' @ c) ` set (mc_cols_keep [])"
    have "''MS_CompanyID'' \<in> dom (merged (projr ?g) ! 0)" by (subst d0) simp
    then have "''MS_CompanyID'' \<in> set [''Gcode''] \<union> (\<lambda>c. ''SR_'' @ c) ` set (sr_cols_keep [])
                            \<union> (\<lambda>c. ''MC_'' @ c) ` set (mc_cols_keep [])"
      by (subst (asm) eq)
    with nm show False by (rule notE)
  qed
  show ?thesis by (intro conjI l d0 d1 ne ns)
qed

text \<open>
  C3 as amended.  The script returns one merged row per primary row, and the key set of
  merged row i is the key set of primary row i together with MS_CompanyID, MS_SecurityID,
  the SR_ name of every kept secondary column and the MC_ name of every kept tertiary column.
  Hence all merged rows have the same key set whenever all primary rows have the same key
  set, and when every primary row has exactly the primary file's columns as keys (no line is
  longer than the header) that common set is those columns with MS_CompanyID, MS_SecurityID
  and the SR_ and MC_ names.  A row that took the no-match branch in all three stages holds
  the empty string in every one of these SR_ and MC_ fields.
\<close>

theorem schema_uniform:
  "\<exists>res. generate sirca sirca_cols secref secref_cols master master_cols = Inr res
     \<and> length (merged res) = length sirca
     \<and> (\<forall>i < length sirca.
           dom (merged res ! i)
             = insert ''MS_CompanyID'' (insert ''MS_SecurityID'' (dom (sirca ! i)))
               \<union> (\<lambda>c. ''SR_'' @ c) ` set (sr_cols_keep secref_cols)
               \<union> (\<lambda>c. ''MC_'' @ c) ` set (mc_cols_keep master_cols))
     \<and> ((\<forall>r \<in> set sirca. \<forall>r' \<in> set sirca. dom r = dom r') \<longrightarrow>
          (\<forall>m \<in> set (merged res). \<forall>m' \<in> set (merged res). dom m = dom m'))
     \<and> ((\<forall>r \<in> set sirca. dom r = set sirca_cols) \<longrightarrow>
          (\<forall>m \<in> set (merged res).
             dom m = insert ''MS_CompanyID'' (insert ''MS_SecurityID'' (set sirca_cols))
                     \<union> (\<lambda>c. ''SR_'' @ c) ` set (sr_cols_keep secref_cols)
                     \<union> (\<lambda>c. ''MC_'' @ c) ` set (mc_cols_keep master_cols)))
     \<and> (\<forall>i < length sirca.
           step1_row (sr_index (map normalise_secref secref)) (sr_cols_keep secref_cols)
                     (normalise_sirca (sirca ! i))
             = Inr (False, merged1 sirca secref secref_cols ! i) \<longrightarrow>
           step2_row (isin_index (map normalise_master master)) (mc_cols_keep master_cols)
                     (merged1 sirca secref secref_cols ! i)
             = (False, merged2 sirca secref secref_cols master master_cols ! i) \<longrightarrow>
           step3_row (symbol_index (map normalise_master master)) (mc_cols_keep master_cols)
                     (merged2 sirca secref secref_cols master master_cols ! i)
             = (False, merged res ! i) \<longrightarrow>
           (\<forall>c \<in> set (sr_cols_keep secref_cols). (merged res ! i) (''SR_'' @ c) = Some '''')
         \<and> (\<forall>c \<in> set (mc_cols_keep master_cols). (merged res ! i) (''MC_'' @ c) = Some ''''))"
proof -
  let ?M = "merged3 sirca secref secref_cols master master_cols"
  let ?X = "(\<lambda>c. ''SR_'' @ c) ` set (sr_cols_keep secref_cols)
            \<union> (\<lambda>c. ''MC_'' @ c) ` set (mc_cols_keep master_cols)"
  have len: "length ?M = length sirca" by (rule length_merged3)
  have p: "\<forall>i < length sirca.
           dom (?M ! i)
             = insert ''MS_CompanyID'' (insert ''MS_SecurityID'' (dom (sirca ! i)))
               \<union> (\<lambda>c. ''SR_'' @ c) ` set (sr_cols_keep secref_cols)
               \<union> (\<lambda>c. ''MC_'' @ c) ` set (mc_cols_keep master_cols)"
    by (intro allI impI) (rule dom_merged3_nth)
  have u: "(\<forall>r \<in> set sirca. \<forall>r' \<in> set sirca. dom r = dom r') \<longrightarrow>
          (\<forall>m \<in> set ?M. \<forall>m' \<in> set ?M. dom m = dom m')"
  proof (intro impI ballI)
    fix m m'
    assume same: "\<forall>r \<in> set sirca. \<forall>r' \<in> set sirca. dom r = dom r'"
       and m: "m \<in> set ?M" and m': "m' \<in> set ?M"
    from m obtain i where i: "i < length sirca" and mi: "m = ?M ! i"
      by (auto simp: in_set_conv_nth len)
    from m' obtain j where j: "j < length sirca" and mj: "m' = ?M ! j"
      by (auto simp: in_set_conv_nth len)
    from i have ri: "sirca ! i \<in> set sirca" by (rule nth_mem)
    from j have rj: "sirca ! j \<in> set sirca" by (rule nth_mem)
    from same ri have "\<forall>r' \<in> set sirca. dom (sirca ! i) = dom r'" by (rule bspec)
    from this rj have eq: "dom (sirca ! i) = dom (sirca ! j)" by (rule bspec)
    from dom_merged3_nth[OF i, of secref secref_cols master master_cols]
         dom_merged3_nth[OF j, of secref secref_cols master master_cols] eq
    show "dom m = dom m'" by (simp only: mi mj)
  qed
  have d: "(\<forall>r \<in> set sirca. dom r = set sirca_cols) \<longrightarrow>
          (\<forall>m \<in> set ?M.
             dom m = insert ''MS_CompanyID'' (insert ''MS_SecurityID'' (set sirca_cols))
                     \<union> (\<lambda>c. ''SR_'' @ c) ` set (sr_cols_keep secref_cols)
                     \<union> (\<lambda>c. ''MC_'' @ c) ` set (mc_cols_keep master_cols))"
  proof (intro impI ballI)
    fix m
    assume hdr: "\<forall>r \<in> set sirca. dom r = set sirca_cols" and "m \<in> set ?M"
    from dom_merged3[OF this(2)] obtain r where r: "r \<in> set sirca" and
      dm: "dom m = insert ''MS_CompanyID'' (insert ''MS_SecurityID'' (dom r))
                   \<union> (\<lambda>c. ''SR_'' @ c) ` set (sr_cols_keep secref_cols)
                   \<union> (\<lambda>c. ''MC_'' @ c) ` set (mc_cols_keep master_cols)"
      by (rule bexE)
    from hdr r have "dom r = set sirca_cols" by (rule bspec)
    with dm show "dom m = insert ''MS_CompanyID'' (insert ''MS_SecurityID'' (set sirca_cols))
                     \<union> (\<lambda>c. ''SR_'' @ c) ` set (sr_cols_keep secref_cols)
                     \<union> (\<lambda>c. ''MC_'' @ c) ` set (mc_cols_keep master_cols)"
      by (simp only:)
  qed
  have b: "\<forall>i < length sirca.
           step1_row (sr_index (map normalise_secref secref)) (sr_cols_keep secref_cols)
                     (normalise_sirca (sirca ! i))
             = Inr (False, merged1 sirca secref secref_cols ! i) \<longrightarrow>
           step2_row (isin_index (map normalise_master master)) (mc_cols_keep master_cols)
                     (merged1 sirca secref secref_cols ! i)
             = (False, merged2 sirca secref secref_cols master master_cols ! i) \<longrightarrow>
           step3_row (symbol_index (map normalise_master master)) (mc_cols_keep master_cols)
                     (merged2 sirca secref secref_cols master master_cols ! i)
             = (False, ?M ! i) \<longrightarrow>
           (\<forall>c \<in> set (sr_cols_keep secref_cols). (?M ! i) (''SR_'' @ c) = Some '''')
         \<and> (\<forall>c \<in> set (mc_cols_keep master_cols). (?M ! i) (''MC_'' @ c) = Some '''')"
  proof (intro allI impI)
    fix i
    assume i: "i < length sirca"
       and s1: "step1_row (sr_index (map normalise_secref secref)) (sr_cols_keep secref_cols)
                     (normalise_sirca (sirca ! i))
             = Inr (False, merged1 sirca secref secref_cols ! i)"
       and s2: "step2_row (isin_index (map normalise_master master)) (mc_cols_keep master_cols)
                     (merged1 sirca secref secref_cols ! i)
             = (False, merged2 sirca secref secref_cols master master_cols ! i)"
       and s3: "step3_row (symbol_index (map normalise_master master)) (mc_cols_keep master_cols)
                     (merged2 sirca secref secref_cols master master_cols ! i)
             = (False, ?M ! i)"
    from s1 step1_row_merged1[OF i, of secref secref_cols]
    have u1: "\<not> fst (join1 (sr_index (map normalise_secref secref)) (sr_cols_keep secref_cols)
                        (normalise_sirca (sirca ! i)))"
      by simp
    from s2 have u2: "\<not> fst (step2_row (isin_index (map normalise_master master))
                         (mc_cols_keep master_cols) (merged1 sirca secref secref_cols ! i))"
      by simp
    from s3 have u3: "\<not> fst (step3_row (symbol_index (map normalise_master master))
                         (mc_cols_keep master_cols)
                         (merged2 sirca secref secref_cols master master_cols ! i))"
      by simp
    from merged3_blank[OF i u1 u2 u3]
    show "(\<forall>c \<in> set (sr_cols_keep secref_cols). (?M ! i) (''SR_'' @ c) = Some '''')
         \<and> (\<forall>c \<in> set (mc_cols_keep master_cols). (?M ! i) (''MC_'' @ c) = Some '''')" .
  qed
  have "\<exists>res. generate sirca sirca_cols secref secref_cols master master_cols = Inr res
          \<and> merged res = ?M"
    by (simp add: generate_eq)
  then obtain res where
    g: "generate sirca sirca_cols secref secref_cols master master_cols = Inr res"
    and mr: "merged res = ?M"
    by (elim exE conjE)
  show ?thesis
    by (rule exI[of _ res])
       (intro conjI g len[folded mr] p[folded mr] u[folded mr] d[folded mr] b[folded mr])
qed

theorem schema_uniform_witness:
  "\<exists>res. generate
            [[''MS_CompanyID'' \<mapsto> ''1'', ''MS_SecurityID'' \<mapsto> ''A''],
             [''MS_CompanyID'' \<mapsto> ''2'', ''MS_SecurityID'' \<mapsto> ''B'']]
            [''MS_CompanyID'', ''MS_SecurityID'']
            [[''CompanyId'' \<mapsto> ''1'', ''ShareClassId'' \<mapsto> ''A'', ''ISIN'' \<mapsto> ''I1'']]
            [''CompanyId'', ''ShareClassId'', ''ISIN'']
            [] [''ABN''] = Inr res
     \<and> dom (merged res ! 0) = dom (merged res ! 1)
     \<and> dom (merged res ! 1)
         = {''MS_CompanyID'', ''MS_SecurityID'', ''SR_CompanyId'', ''SR_ShareClassId'', ''SR_ISIN'',
            ''MC_ABN''}
     \<and> (merged res ! 0) ''SR_ISIN'' = Some ''I1''
     \<and> (merged res ! 1) ''SR_ISIN'' = Some ''''
     \<and> (merged res ! 1) ''MC_ABN'' = Some ''''"
proof -
  let ?sirca = "[[''MS_CompanyID'' \<mapsto> ''1'', ''MS_SecurityID'' \<mapsto> ''A''],
                 [''MS_CompanyID'' \<mapsto> ''2'', ''MS_SecurityID'' \<mapsto> ''B'']]"
  let ?sc = "[''MS_CompanyID'', ''MS_SecurityID'']"
  let ?secref = "[[''CompanyId'' \<mapsto> ''1'', ''ShareClassId'' \<mapsto> ''A'', ''ISIN'' \<mapsto> ''I1'']]"
  let ?ec = "[''CompanyId'', ''ShareClassId'', ''ISIN'']"
  let ?mc = "[''ABN'']"
  have hyp: "\<forall>r \<in> set ?sirca. dom r = set ?sc"
    by (simp add: insert_commute)
  have hyp2: "\<forall>r \<in> set ?sirca. \<forall>r' \<in> set ?sirca. dom r = dom r'"
    by simp
  have k1: "sr_cols_keep ?ec = [''CompanyId'', ''ShareClassId'', ''ISIN'']"
    by (simp add: sr_cols_keep_def sr_cols_keep0_def)
  have k2: "mc_cols_keep ?mc = [''ABN'']"
    by (simp add: mc_cols_keep_def mc_cols_keep0_def)
  have i0: "(0::nat) < length ?sirca" and i1: "(1::nat) < length ?sirca" by simp_all
  have p1: "sr_probe (sr_index (map normalise_secref ?secref)) (normalise_sirca (?sirca ! 1)) = None"
    by (simp add: sr_probe_def Let_def sr_index_def sr_key_normalise_secref normalise_sirca_def
                  clean_def get_def strip_def isspace_def)
  have u1: "fst (join1 (sr_index (map normalise_secref ?secref)) (sr_cols_keep ?ec)
                       (normalise_sirca (?sirca ! 1))) = False"
    by (simp only: join1_def p1 option.case fst_conv)
  have p0: "sr_probe (sr_index (map normalise_secref ?secref)) (normalise_sirca (?sirca ! 0))
              = Some (normalise_secref (?secref ! 0))"
    by (simp add: sr_probe_def Let_def sr_index_def sr_key_normalise_secref normalise_sirca_def
                  clean_def get_def strip_def isspace_def)
  have j0: "snd (join1 (sr_index (map normalise_secref ?secref)) (sr_cols_keep ?ec)
                       (normalise_sirca (?sirca ! 0))) ''SR_ISIN'' = Some ''I1''"
    by (simp only: join1_def p0 option.case)
       (simp add: normalise_secref_nonempty copy_cols_apply k1 get_def normalise_secref_keys
                  strip_def isspace_def)
  have nm: "''SR_ISIN'' \<notin> (\<lambda>c. ''MC_'' @ c) ` set (mc_cols_keep ?mc)"
    by (simp add: k2)
  have m0: "(merged3 ?sirca ?secref ?ec [] ?mc ! 0) ''SR_ISIN'' = Some ''I1''"
    by (simp only: merged3_nth[OF i0] merged2_nth[OF i0] merged1_nth[OF i0]
                   step3_row_other[OF nm] step2_row_other[OF nm] j0)
  have "?thesis" using schema_uniform[of ?sirca ?sc ?secref ?ec "[]" ?mc]
  proof (elim exE conjE)
    fix res
    assume g: "generate ?sirca ?sc ?secref ?ec [] ?mc = Inr res"
       and ui: "(\<forall>r \<in> set ?sirca. \<forall>r' \<in> set ?sirca. dom r = dom r') \<longrightarrow>
                  (\<forall>m \<in> set (merged res). \<forall>m' \<in> set (merged res). dom m = dom m')"
       and ei: "(\<forall>r \<in> set ?sirca. dom r = set ?sc) \<longrightarrow>
                  (\<forall>m \<in> set (merged res).
                     dom m = insert ''MS_CompanyID'' (insert ''MS_SecurityID'' (set ?sc))
                             \<union> (\<lambda>c. ''SR_'' @ c) ` set (sr_cols_keep ?ec)
                             \<union> (\<lambda>c. ''MC_'' @ c) ` set (mc_cols_keep ?mc))"
       and b: "\<forall>i < length ?sirca.
           step1_row (sr_index (map normalise_secref ?secref)) (sr_cols_keep ?ec)
                     (normalise_sirca (?sirca ! i))
             = Inr (False, merged1 ?sirca ?secref ?ec ! i) \<longrightarrow>
           step2_row (isin_index (map normalise_master [])) (mc_cols_keep ?mc)
                     (merged1 ?sirca ?secref ?ec ! i)
             = (False, merged2 ?sirca ?secref ?ec [] ?mc ! i) \<longrightarrow>
           step3_row (symbol_index (map normalise_master [])) (mc_cols_keep ?mc)
                     (merged2 ?sirca ?secref ?ec [] ?mc ! i)
             = (False, merged res ! i) \<longrightarrow>
           (\<forall>c \<in> set (sr_cols_keep ?ec). (merged res ! i) (''SR_'' @ c) = Some '''')
         \<and> (\<forall>c \<in> set (mc_cols_keep ?mc). (merged res ! i) (''MC_'' @ c) = Some '''')"
    from ui hyp2 have u: "\<forall>m \<in> set (merged res). \<forall>m' \<in> set (merged res). dom m = dom m'"
      by (rule mp)
    from ei hyp have e: "\<forall>m \<in> set (merged res).
                     dom m = insert ''MS_CompanyID'' (insert ''MS_SecurityID'' (set ?sc))
                             \<union> (\<lambda>c. ''SR_'' @ c) ` set (sr_cols_keep ?ec)
                             \<union> (\<lambda>c. ''MC_'' @ c) ` set (mc_cols_keep ?mc)"
      by (rule mp)
    have mr: "merged res = merged3 ?sirca ?secref ?ec [] ?mc" by (rule generate_merged[OF g])
    have len: "length (merged res) = 2" by (simp only: mr length_merged3) simp
    have in0: "merged res ! 0 \<in> set (merged res)"
      by (rule nth_mem) (simp add: len)
    have in1: "merged res ! 1 \<in> set (merged res)"
      by (rule nth_mem) (simp add: len)
    from u in0 have "\<forall>m' \<in> set (merged res). dom (merged res ! 0) = dom m'" by (rule bspec)
    from this in1 have du: "dom (merged res ! 0) = dom (merged res ! 1)" by (rule bspec)
    have s1: "step1_row (sr_index (map normalise_secref ?secref)) (sr_cols_keep ?ec)
                     (normalise_sirca (?sirca ! 1))
             = Inr (False, merged1 ?sirca ?secref ?ec ! 1)"
      by (simp only: step1_row_merged1[OF i1] u1)
    have s2: "step2_row (isin_index (map normalise_master [])) (mc_cols_keep ?mc)
                     (merged1 ?sirca ?secref ?ec ! 1)
             = (False, merged2 ?sirca ?secref ?ec [] ?mc ! 1)"
      by (subst step2_row_merged2[OF i1]) (simp only: list.map step2_row_no_rows)
    have s3: "step3_row (symbol_index (map normalise_master [])) (mc_cols_keep ?mc)
                     (merged2 ?sirca ?secref ?ec [] ?mc ! 1)
             = (False, merged res ! 1)"
      by (subst step3_row_merged3[OF i1]) (simp only: list.map step3_row_no_rows mr)
    from b[rule_format, OF i1 s1 s2 s3]
    have bl: "(\<forall>c \<in> set (sr_cols_keep ?ec). (merged res ! 1) (''SR_'' @ c) = Some '''')"
         "(\<forall>c \<in> set (mc_cols_keep ?mc). (merged res ! 1) (''MC_'' @ c) = Some '''')"
      by (rule conjunct1, rule conjunct2)
    have e1: "(merged res ! 1) (''SR_'' @ ''ISIN'') = Some ''''"
      by (rule bl(1)[rule_format]) (simp add: k1)
    have e2: "(merged res ! 1) (''MC_'' @ ''ABN'') = Some ''''"
      by (rule bl(2)[rule_format]) (simp add: k2)
    from m0 have e0: "(merged res ! 0) ''SR_ISIN'' = Some ''I1''" by (simp only: mr)
    from e1 have e1': "(merged res ! 1) ''SR_ISIN'' = Some ''''" by simp
    from e2 have e2': "(merged res ! 1) ''MC_ABN'' = Some ''''" by simp
    from e in1 have "dom (merged res ! 1)
                       = insert ''MS_CompanyID'' (insert ''MS_SecurityID'' (set ?sc))
                             \<union> (\<lambda>c. ''SR_'' @ c) ` set (sr_cols_keep ?ec)
                             \<union> (\<lambda>c. ''MC_'' @ c) ` set (mc_cols_keep ?mc)"
      by (rule bspec)
    then have d1: "dom (merged res ! 1)
         = {''MS_CompanyID'', ''MS_SecurityID'', ''SR_CompanyId'', ''SR_ShareClassId'', ''SR_ISIN'',
            ''MC_ABN''}"
      by (simp only: k1 k2) (simp add: insert_commute)
    show ?thesis
      by (rule exI[of _ res]) (intro conjI g du d1 e0 e1' e2')
  qed
  then show ?thesis .
qed

text \<open>
  C6 (the fallback scenario).  The primary file has the one row MS_CompanyID "1",
  MS_SecurityID "A", CompanyTicker "xyz", the secondary file has no row (whatever its
  columns), the tertiary file has the one row Symbol "XYZ", ABN "123".  The script returns
  one merged row: every field of it whose name starts with SR_ is the empty string, each
  kept SR_ column is present with the empty string, and MC_ABN is "123".  It was matched in
  step 3 only.  MC_ABN is a column of the written table, the written line holds "123" there
  and the empty string under every SR_ column.
\<close>

theorem fallback_scenario:
  "\<exists>res m.
      generate [scenario_primary] [''MS_CompanyID'', ''MS_SecurityID'', ''CompanyTicker'']
               [] secref_cols [scenario_tertiary] [''Symbol'', ''ABN''] = Inr res
    \<and> merged res = [m]
    \<and> (\<forall>k v. m k = Some v \<longrightarrow> take 3 k = ''SR_'' \<longrightarrow> v = '''')
    \<and> (\<forall>c \<in> set (sr_cols_keep secref_cols). m (''SR_'' @ c) = Some '''')
    \<and> m ''MC_ABN'' = Some ''123''
    \<and> n_step1 res = 0 \<and> n_step2 res = 0 \<and> n_step3 res = 1
    \<and> ''MC_ABN'' \<in> set (output_cols res)
    \<and> written res = [map (\<lambda>c. get m c '''') (output_cols res)]
    \<and> (\<forall>c. take 3 c = ''SR_'' \<longrightarrow> get m c '''' = '''')
    \<and> get m ''MC_ABN'' '''' = ''123''"
proof -
  let ?m = "(blank_cols ''SR_'' (sr_cols_keep secref_cols) scenario_primary)(''MC_ABN'' \<mapsto> ''123'')"
  let ?res = "\<lparr> merged = [?m], n_step1 = 0, n_step2 = 0, n_step3 = 1,
                output_cols = select_output_cols [?m] [''MS_CompanyID'', ''MS_SecurityID'', ''CompanyTicker''],
                written = writerows (select_output_cols [?m] [''MS_CompanyID'', ''MS_SecurityID'', ''CompanyTicker''])
                                    [?m] \<rparr>"
  have g: "generate [scenario_primary] [''MS_CompanyID'', ''MS_SecurityID'', ''CompanyTicker'']
               [] secref_cols [scenario_tertiary] [''Symbol'', ''ABN''] = Inr ?res"
    by (simp only: generate_eq scenario_merged3 scenario_counts)
  have a: "\<forall>k v. ?m k = Some v \<longrightarrow> take 3 k = ''SR_'' \<longrightarrow> v = ''''"
    by (intro allI impI) (rule scenario_sr_fields)
  have b: "\<forall>c \<in> set (sr_cols_keep secref_cols). ?m (''SR_'' @ c) = Some ''''"
    by (intro ballI) (rule scenario_sr_kept)
  have c: "?m ''MC_ABN'' = Some ''123''" by simp
  have d: "\<forall>c. take 3 c = ''SR_'' \<longrightarrow> get ?m c '''' = ''''"
  proof (intro allI impI)
    fix c :: string assume t: "take 3 c = ''SR_''"
    show "get ?m c '''' = ''''"
    proof (cases "?m c")
      case None
      then show ?thesis by (simp only: get_def option.case)
    next
      case (Some v)
      from scenario_sr_fields[OF Some t] Some show ?thesis by (simp only: get_def option.case)
    qed
  qed
  have e: "get ?m ''MC_ABN'' '''' = ''123''" by (simp add: get_def)
  show ?thesis
    apply (rule exI[of _ ?res])
    apply (rule exI[of _ ?m])
    apply (intro conjI g a b c d e)
         apply (simp_all only: result.select_convs scenario_header)
    apply (simp add: writerows_def)
    done
qed

theorem fallback_scenario_witness:
  "\<exists>res m.
      generate [scenario_primary] [''MS_CompanyID'', ''MS_SecurityID'', ''CompanyTicker'']
               [] [''ISIN''] [scenario_tertiary] [''Symbol'', ''ABN''] = Inr res
    \<and> merged res = [m]
    \<and> m ''SR_ISIN'' = Some ''''
    \<and> m ''MC_ABN'' = Some ''123''
    \<and> get m ''SR_CUSIP'' '''' = ''''
    \<and> n_step3 res = 1"
proof -
  have "?thesis" using fallback_scenario[of "[''ISIN'']"]
  proof (elim exE conjE)
    fix res m
    assume g: "generate [scenario_primary] [''MS_CompanyID'', ''MS_SecurityID'', ''CompanyTicker'']
               [] [''ISIN''] [scenario_tertiary] [''Symbol'', ''ABN''] = Inr res"
       and mr: "merged res = [m]"
       and b: "\<forall>c \<in> set (sr_cols_keep [''ISIN'']). m (''SR_'' @ c) = Some ''''"
       and c: "m ''MC_ABN'' = Some ''123''"
       and n3: "n_step3 res = 1"
       and d: "\<forall>c. take 3 c = ''SR_'' \<longrightarrow> get m c '''' = ''''"
    have "m (''SR_'' @ ''ISIN'') = Some ''''"
      by (rule b[rule_format]) (simp add: sr_cols_keep_isin)
    then have b': "m ''SR_ISIN'' = Some ''''" by simp
    have d': "get m ''SR_CUSIP'' '''' = ''''"
      by (rule d[rule_format]) simp
    show ?thesis
      by (rule exI[of _ res], rule exI[of _ m]) (intro conjI g mr b' c d' n3)
  qed
  then show ?thesis .
qed

text \<open>
  C1 (fallback exclusivity) fails on the code.  The step-3 guard does not ask whether step 2
  matched; it asks whether one of MC_ABN, MC_ACN, MC_TradingStatus is non-empty.  Here the
  primary row is joined in step 1 to a secondary row with ISIN "AU01" and in step 2 to the
  first tertiary row (ISIN "AU01", empty ABN); its ticker "TCK" is the Symbol of the second
  tertiary row.  Step 2 takes the match branch, and step 3 nevertheless takes its match branch
  on the same row and overwrites MC_ISIN and MC_ABN with the second tertiary row's values; the
  row is counted in both n_step2 and n_step3.
\<close>

theorem fallback_overwrites_isin_match:
  "\<exists>res mc_isin_lookup mc_symbol_lookup.
      generate [bug_primary] [''MS_CompanyID'', ''MS_SecurityID'', ''CompanyTicker'']
               [bug_secondary] [''CompanyId'', ''ShareClassId'', ''ISIN'']
               bug_tertiary [''ISIN'', ''Symbol'', ''ABN''] = Inr res
    \<and> build_mc_isin_lookup (map normalise_master bug_tertiary) Map.empty = Inr mc_isin_lookup
    \<and> build_mc_symbol_lookup (map normalise_master bug_tertiary) Map.empty = Inr mc_symbol_lookup
    \<and> step2_row mc_isin_lookup (mc_cols_keep [''ISIN'', ''Symbol'', ''ABN'']) bug_after_step1
        = (True, bug_after_step2)
    \<and> step3_row mc_symbol_lookup (mc_cols_keep [''ISIN'', ''Symbol'', ''ABN'']) bug_after_step2
        = (True, bug_after_step3)
    \<and> merged res = [bug_after_step3]
    \<and> n_step2 res = 1 \<and> n_step3 res = 1
    \<and> bug_after_step2 ''MC_ISIN'' = Some ''AU01'' \<and> bug_after_step2 ''MC_ABN'' = Some ''''
    \<and> bug_after_step3 ''MC_ISIN'' = Some ''AU99'' \<and> bug_after_step3 ''MC_ABN'' = Some ''999''
    \<and> bug_after_step3 \<noteq> bug_after_step2"
proof -
  have ne: "bug_after_step3 \<noteq> bug_after_step2"
  proof
    assume "bug_after_step3 = bug_after_step2"
    then have "bug_after_step3 ''MC_ABN'' = bug_after_step2 ''MC_ABN''" by (simp only:)
    then show False by (simp add: bug_after_step3_def bug_after_step2_def)
  qed
  have v: "bug_after_step2 ''MC_ISIN'' = Some ''AU01''" "bug_after_step2 ''MC_ABN'' = Some ''''"
          "bug_after_step3 ''MC_ISIN'' = Some ''AU99''" "bug_after_step3 ''MC_ABN'' = Some ''999''"
    by (simp_all add: bug_after_step3_def bug_after_step2_def)
  have g: "\<exists>res. generate [bug_primary] [''MS_CompanyID'', ''MS_SecurityID'', ''CompanyTicker'']
               [bug_secondary] [''CompanyId'', ''ShareClassId'', ''ISIN'']
               bug_tertiary [''ISIN'', ''Symbol'', ''ABN''] = Inr res
        \<and> merged res = [bug_after_step3] \<and> n_step2 res = 1 \<and> n_step3 res = 1"
    by (simp only: generate_eq bug_m3 bug_counts) simp
  then obtain res where
    g1: "generate [bug_primary] [''MS_CompanyID'', ''MS_SecurityID'', ''CompanyTicker'']
               [bug_secondary] [''CompanyId'', ''ShareClassId'', ''ISIN'']
               bug_tertiary [''ISIN'', ''Symbol'', ''ABN''] = Inr res"
    and g2: "merged res = [bug_after_step3]" and g3: "n_step2 res = 1" and g4: "n_step3 res = 1"
    by (elim exE conjE)
  show ?thesis
    apply (rule exI[of _ res])
    apply (rule exI[of _ "isin_index (map normalise_master bug_tertiary)"])
    apply (rule exI[of _ "symbol_index (map normalise_master bug_tertiary)"])
    apply (intro conjI g1 g2 g3 g4 v ne build_mc_isin_lookup_normalised
                 build_mc_symbol_lookup_normalised)
     apply (simp_all only: bug_keep2 bug_step2 bug_step3)
    done
qed

end
